theory Spec2Isabelle
  imports Main "HOL-Library.Word" "HOL-Library.AList" "HOL-Library.Signed_Division"
    "HOL-Library.Multiset"
begin

section \<open>core/types: scalars, constants and helper functions\<close>

text \<open>
  Go's \<open>uint64\<close> is a 64-bit word: \<open>+\<close>, \<open>-\<close> and \<open>*\<close> wrap around, \<open>/\<close> is the
  unsigned quotient and the comparisons are unsigned. Go's \<open>int\<close> (64 bits on the
  amd64 targets of the Makefile) only ever holds slice lengths, counts of slice elements
  and the proposer index here; it is modelled by \<open>int\<close>, with Go's truncating
  \<open>/\<close> and \<open>%\<close> written \<open>sdiv\<close> and \<open>smod\<close>. A \<open>time.Time\<close> is an instant,
  counted in nanoseconds from the zero time; every call of \<open>time.Now()\<close> is an explicit
  argument of the operation that makes it.
\<close>

type_synonym uint64 = "64 word"
type_synonym time = int

definition MinValidatorStake :: uint64 where
  "MinValidatorStake = 28846"

definition ConsensusThreshold :: nat where
  "ConsensusThreshold = 67"

definition IsValidatorEligible :: "uint64 \<Rightarrow> bool" where
  "IsValidatorEligible stakeAmount \<longleftrightarrow> stakeAmount \<ge> MinValidatorStake"

definition CalculateValidatorReward :: "uint64 \<Rightarrow> uint64 \<Rightarrow> uint64 \<Rightarrow> uint64" where
  "CalculateValidatorReward stakeAmount totalStake blockReward =
     (if totalStake = 0 then 0 else (stakeAmount * blockReward) div totalStake)"

definition IsConsensusReached :: "uint64 \<Rightarrow> uint64 \<Rightarrow> bool" where
  "IsConsensusReached votes totalValidators =
     (if totalValidators = 0 then False
      else (votes * 100) div totalValidators \<ge> of_nat ConsensusThreshold)"

record Context =
  ctx_Height :: uint64
  ctx_Timestamp :: time
  ctx_ChainID :: string

section \<open>modules/validator: the validator registry\<close>

text \<open>
  \<open>ValidatorStatus\<close> and \<open>SlashReason\<close> are string types in the source, so a value
  outside the named constants is possible and is kept possible here.
\<close>

type_synonym ValidatorStatus = string
type_synonym SlashReason = string

definition ValidatorStatusActive :: ValidatorStatus where
  "ValidatorStatusActive = ''active''"
definition ValidatorStatusInactive :: ValidatorStatus where
  "ValidatorStatusInactive = ''inactive''"
definition ValidatorStatusSlashed :: ValidatorStatus where
  "ValidatorStatusSlashed = ''slashed''"
definition ValidatorStatusJailed :: ValidatorStatus where
  "ValidatorStatusJailed = ''jailed''"

definition SlashReasonDoubleSigning :: SlashReason where
  "SlashReasonDoubleSigning = ''double_signing''"
definition SlashReasonDowntime :: SlashReason where
  "SlashReasonDowntime = ''downtime''"
definition SlashReasonInvalidBlock :: SlashReason where
  "SlashReasonInvalidBlock = ''invalid_block''"
definition SlashReasonEquivocation :: SlashReason where
  "SlashReasonEquivocation = ''equivocation''"

record ValidatorNode =
  ID :: string
  Address :: "8 word list"
  StakeAmount :: uint64
  Status :: ValidatorStatus
  Commission :: uint64
  CreatedAt :: time
  UpdatedAt :: time
  Description :: string
  Website :: string

record SlashRecord =
  sr_ValidatorID :: string
  sr_Reason :: SlashReason
  sr_Amount :: uint64
  sr_Timestamp :: time
  sr_Height :: uint64

text \<open>
  The manager's only field is the Go map \<open>validators\<close>. It is an association list read
  with \<open>map_of\<close> and written with \<open>AList.update\<close>, which replaces the entry of a key
  that is present and adds one otherwise; \<open>registry_ok\<close> says that every key occurs once,
  as in a Go map. Ranging over the map visits the entries in list order: the source's
  loops only add up stakes and count entries, which no order changes.
\<close>

record ValidatorManager =
  validators :: "(string \<times> ValidatorNode) list"

definition registry_ok :: "ValidatorManager \<Rightarrow> bool" where
  "registry_ok vm \<longleftrightarrow> distinct (map fst (validators vm))"

datatype error =
    InsufficientStake uint64
  | DuplicateValidator string
  | ValidatorNotFound string
  | NoValidators
  | QuorumNotReached int int
  | IndexOutOfRange

definition NewValidatorManager :: ValidatorManager where
  "NewValidatorManager = \<lparr>validators = []\<rparr>"

definition RegisterNode ::
  "time \<Rightarrow> time \<Rightarrow> Context \<Rightarrow> ValidatorNode \<Rightarrow> ValidatorManager \<Rightarrow> error option \<times> ValidatorManager" where
  "RegisterNode now1 now2 ctx node vm =
     (if \<not> IsValidatorEligible (StakeAmount node)
      then (Some (InsufficientStake (StakeAmount node)), vm)
      else if map_of (validators vm) (ID node) \<noteq> None
      then (Some (DuplicateValidator (ID node)), vm)
      else
        let node1 = node\<lparr>CreatedAt := now1\<rparr>;
            node2 = node1\<lparr>UpdatedAt := now2\<rparr>;
            node3 = node2\<lparr>Status := ValidatorStatusActive\<rparr>
        in (None, vm\<lparr>validators := AList.update (ID node3) node3 (validators vm)\<rparr>))"

definition DeregisterNode ::
  "time \<Rightarrow> Context \<Rightarrow> string \<Rightarrow> ValidatorManager \<Rightarrow> error option \<times> ValidatorManager" where
  "DeregisterNode now ctx nodeID vm =
     (case map_of (validators vm) nodeID of
        None \<Rightarrow> (Some (ValidatorNotFound nodeID), vm)
      | Some validator \<Rightarrow>
          let v1 = validator\<lparr>Status := ValidatorStatusInactive\<rparr>;
              v2 = v1\<lparr>UpdatedAt := now\<rparr>
          in (None, vm\<lparr>validators := AList.update nodeID v2 (validators vm)\<rparr>))"

definition GetActiveValidators :: "Context \<Rightarrow> ValidatorManager \<Rightarrow> ValidatorNode list" where
  "GetActiveValidators ctx vm =
     map snd (filter (\<lambda>kv. Status (snd kv) = ValidatorStatusActive) (validators vm))"

definition GetValidator :: "Context \<Rightarrow> string \<Rightarrow> ValidatorManager \<Rightarrow> error + ValidatorNode" where
  "GetValidator ctx nodeID vm =
     (case map_of (validators vm) nodeID of
        None \<Rightarrow> Inl (ValidatorNotFound nodeID)
      | Some validator \<Rightarrow> Inr validator)"

definition UpdateValidator ::
  "time \<Rightarrow> Context \<Rightarrow> ValidatorNode \<Rightarrow> ValidatorManager \<Rightarrow> error option \<times> ValidatorManager" where
  "UpdateValidator now ctx node vm =
     (if map_of (validators vm) (ID node) = None
      then (Some (ValidatorNotFound (ID node)), vm)
      else
        let node1 = node\<lparr>UpdatedAt := now\<rparr>
        in (None, vm\<lparr>validators := AList.update (ID node1) node1 (validators vm)\<rparr>))"

text \<open>The loop \<open>for _, v := range activeValidators { totalStake += v.StakeAmount }\<close>.\<close>

fun sumStake :: "ValidatorNode list \<Rightarrow> uint64 \<Rightarrow> uint64" where
  "sumStake [] totalStake = totalStake"
| "sumStake (v # vs) totalStake = sumStake vs (totalStake + StakeAmount v)"

definition CalculateRewards :: "Context \<Rightarrow> string \<Rightarrow> ValidatorManager \<Rightarrow> uint64" where
  "CalculateRewards ctx nodeID vm =
     (case GetValidator ctx nodeID vm of
        Inl err \<Rightarrow> 0
      | Inr validator \<Rightarrow>
          let activeValidators = GetActiveValidators ctx vm;
              totalStake = sumStake activeValidators 0;
              blockReward = 1000
          in CalculateValidatorReward (StakeAmount validator) totalStake blockReward)"

fun calculateSlashAmount :: "uint64 \<Rightarrow> SlashReason \<Rightarrow> uint64" where
  "calculateSlashAmount stakeAmount reason =
     (if reason = SlashReasonDoubleSigning then stakeAmount div 2
      else if reason = SlashReasonDowntime then stakeAmount div 10
      else if reason = SlashReasonInvalidBlock then stakeAmount div 4
      else if reason = SlashReasonEquivocation then stakeAmount div 2
      else stakeAmount div 10)"

definition SlashNode ::
  "time \<Rightarrow> Context \<Rightarrow> string \<Rightarrow> SlashReason \<Rightarrow> ValidatorManager \<Rightarrow> error option \<times> ValidatorManager" where
  "SlashNode now ctx nodeID reason vm =
     (case GetValidator ctx nodeID vm of
        Inl err \<Rightarrow> (Some err, vm)
      | Inr validator \<Rightarrow>
          let slashAmount = calculateSlashAmount (StakeAmount validator) reason;
              v1 = validator\<lparr>Status := ValidatorStatusSlashed\<rparr>;
              v2 = v1\<lparr>StakeAmount := StakeAmount v1 - slashAmount\<rparr>;
              v3 = v2\<lparr>UpdatedAt := now\<rparr>;
              v4 = (if StakeAmount v3 < MinValidatorStake then v3\<lparr>StakeAmount := 0\<rparr> else v3)
          in (None, vm\<lparr>validators := AList.update nodeID v4 (validators vm)\<rparr>))"

definition GetTotalStake :: "Context \<Rightarrow> ValidatorManager \<Rightarrow> uint64" where
  "GetTotalStake ctx vm = sumStake (GetActiveValidators ctx vm) 0"

definition GetValidatorCount :: "Context \<Rightarrow> ValidatorManager \<Rightarrow> int" where
  "GetValidatorCount ctx vm = int (length (GetActiveValidators ctx vm))"

section \<open>core/types: votes, transactions and blocks\<close>

type_synonym VoteType = string

definition VoteTypePreVote :: VoteType where
  "VoteTypePreVote = ''pre_vote''"
definition VoteTypePreCommit :: VoteType where
  "VoteTypePreCommit = ''pre_commit''"

record Vote =
  ValidatorID :: string
  BlockHash :: string
  vote_Timestamp :: time
  vote_Type :: VoteType

record ConsensusData =
  PreVotes :: "Vote list"
  PreCommits :: "Vote list"
  Finalized :: bool
  FinalityTime :: time

record CoinAmount =
  Amount :: uint64
  Denom :: string

record Transaction =
  tx_Hash :: string
  tx_From :: "8 word list"
  tx_To :: "8 word list"
  tx_Amount :: CoinAmount
  Gas :: uint64
  GasPrice :: uint64
  Data :: "8 word list"
  Nonce :: uint64
  Signature :: "8 word list"
  tx_Timestamp :: int

record BlockData =
  Height :: uint64
  Hash :: string
  Timestamp :: time
  Proposer :: string
  Transactions :: "Transaction list"
  Consensus :: ConsensusData

text \<open>\<open>t.Unix()\<close>: whole seconds since 1970, the zero time being year 1.\<close>

definition Unix :: "time \<Rightarrow> int" where
  "Unix t = t div 1000000000 - 62135596800"

text \<open>The verb \<open>%d\<close> of \<open>fmt.Sprintf\<close> on an unsigned value: its decimal digits.\<close>

definition digit_char :: "nat \<Rightarrow> char" where
  "digit_char d = ''0123456789'' ! d"

fun decimal :: "nat \<Rightarrow> string" where
  "decimal n = (if n < 10 then [digit_char n] else decimal (n div 10) @ [digit_char (n mod 10)])"

declare decimal.simps [simp del]

section \<open>modules/consensus: the round engine\<close>

text \<open>
  The mutex is held for the whole body of every operation and released on return, so
  each operation is one atomic step; the printed log lines are left out. The engine
  reaches its state and the registry through pointers that nothing else in the package
  writes, so both are fields of the engine value.

  A \<open>*BlockData\<close> is the address of a block on the heap. \<open>PreVote\<close> and \<open>PreCommit\<close>
  only read through the pointer and take the block it points to (a nil pointer is not a
  block and is not an argument here). \<open>FinalizeBlock\<close> writes through the pointer and
  appends the pointer itself to the history: it takes the address together with the block
  stored there and returns the block as written, and \<open>FinalizedBlocks\<close> is a list of
  addresses, as in the source. No other block of the heap is read or written. An address
  that occurs more than once in the history stands for one block, so writing through it
  is seen at every occurrence; \<open>historyBlocks\<close> reads the history through a heap.
\<close>

type_synonym BlockPtr = nat

record ConsensusState =
  CurrentHeight :: uint64
  CurrentRound :: uint64
  Validators :: "ValidatorNode list"
  ProposerIndex :: int
  Votes :: "Vote list"
  FinalizedBlocks :: "BlockPtr list"

record InMemoryConsensusEngine =
  state :: ConsensusState
  valManager :: ValidatorManager

definition NewInMemoryConsensusEngine ::
  "ValidatorManager \<Rightarrow> ValidatorNode list \<Rightarrow> InMemoryConsensusEngine" where
  "NewInMemoryConsensusEngine valMgr initialValidators =
     \<lparr>state = \<lparr>CurrentHeight = 1, CurrentRound = 0, Validators = initialValidators,
                ProposerIndex = 0, Votes = [], FinalizedBlocks = []\<rparr>,
      valManager = valMgr\<rparr>"

text \<open>
  Indexing \<open>Validators[ProposerIndex]\<close> panics outside the slice; the panic is the
  result \<open>IndexOutOfRange\<close>.
\<close>

definition ProposeBlock ::
  "time \<Rightarrow> time \<Rightarrow> InMemoryConsensusEngine \<Rightarrow> (error + BlockData) \<times> InMemoryConsensusEngine" where
  "ProposeBlock now1 now2 ce =
     (if length (Validators (state ce)) = 0 then (Inl NoValidators, ce)
      else if ProposerIndex (state ce) < 0
              \<or> int (length (Validators (state ce))) \<le> ProposerIndex (state ce)
      then (Inl IndexOutOfRange, ce)
      else
        let proposer = Validators (state ce) ! nat (ProposerIndex (state ce));
            defaultBlockTx =
              \<lparr>tx_Hash = ''tx1'', tx_From = replicate 20 0, tx_To = replicate 20 0,
               tx_Amount = \<lparr>Amount = 1, Denom = ''ue''\<rparr>, Gas = 21000, GasPrice = 1,
               Data = [], Nonce = 1, Signature = [], tx_Timestamp = Unix now1\<rparr>;
            block =
              \<lparr>Height = CurrentHeight (state ce),
               Hash = ''block_'' @ decimal (unat (CurrentHeight (state ce))),
               Timestamp = now2,
               Proposer = ID proposer,
               Transactions = [defaultBlockTx],
               Consensus = \<lparr>PreVotes = [], PreCommits = [], Finalized = False, FinalityTime = 0\<rparr>\<rparr>
        in (Inr block, ce))"

text \<open>
  The loops of \<open>PreVote\<close> and \<open>PreCommit\<close> over the validator snapshot: the vote of the
  validator at position \<open>i\<close> carries the clock reading \<open>clock i\<close>.
\<close>

fun preVoteLoop ::
  "(nat \<Rightarrow> time) \<Rightarrow> nat \<Rightarrow> BlockData \<Rightarrow> ValidatorNode list \<Rightarrow> Vote list \<Rightarrow> Vote list" where
  "preVoteLoop clock i block [] votes = votes"
| "preVoteLoop clock i block (v # vs) votes =
     preVoteLoop clock (Suc i) block vs
       (votes @ [\<lparr>ValidatorID = ID v, BlockHash = Hash block,
                   vote_Timestamp = clock i, vote_Type = VoteTypePreVote\<rparr>])"

definition PreVote ::
  "(nat \<Rightarrow> time) \<Rightarrow> BlockData \<Rightarrow> InMemoryConsensusEngine \<Rightarrow> error option \<times> InMemoryConsensusEngine" where
  "PreVote clock block ce =
     (None, ce\<lparr>state := (state ce)
        \<lparr>Votes := preVoteLoop clock 0 block (Validators (state ce)) (Votes (state ce))\<rparr>\<rparr>)"

fun preCommitLoop ::
  "(nat \<Rightarrow> time) \<Rightarrow> nat \<Rightarrow> BlockData \<Rightarrow> ValidatorNode list \<Rightarrow> Vote list \<Rightarrow> Vote list" where
  "preCommitLoop clock i block [] votes = votes"
| "preCommitLoop clock i block (v # vs) votes =
     preCommitLoop clock (Suc i) block vs
       (votes @ [\<lparr>ValidatorID = ID v, BlockHash = Hash block,
                   vote_Timestamp = clock i, vote_Type = VoteTypePreCommit\<rparr>])"

definition PreCommit ::
  "(nat \<Rightarrow> time) \<Rightarrow> BlockData \<Rightarrow> InMemoryConsensusEngine \<Rightarrow> error option \<times> InMemoryConsensusEngine" where
  "PreCommit clock block ce =
     (None, ce\<lparr>state := (state ce)
        \<lparr>Votes := preCommitLoop clock 0 block (Validators (state ce)) (Votes (state ce))\<rparr>\<rparr>)"

text \<open>The counting loop of \<open>FinalizeBlock\<close> over the outstanding votes.\<close>

fun countPreCommits :: "BlockData \<Rightarrow> Vote list \<Rightarrow> int \<Rightarrow> int" where
  "countPreCommits block [] preCommits = preCommits"
| "countPreCommits block (vote # votes) preCommits =
     countPreCommits block votes
       (if BlockHash vote = Hash block \<and> vote_Type vote = VoteTypePreCommit
        then preCommits + 1 else preCommits)"

definition FinalizeBlock ::
  "time \<Rightarrow> BlockPtr \<Rightarrow> BlockData \<Rightarrow> InMemoryConsensusEngine
     \<Rightarrow> error option \<times> BlockData \<times> InMemoryConsensusEngine" where
  "FinalizeBlock now ptr block ce =
     (let totalValidators = int (length (Validators (state ce)));
          preCommits = countPreCommits block (Votes (state ce)) 0
      in if totalValidators = 0 then (Some NoValidators, block, ce)
         else
           let percentage = (preCommits * 100) sdiv totalValidators
           in if percentage \<ge> int ConsensusThreshold
              then
                let block1 = block\<lparr>Consensus := (Consensus block)\<lparr>Finalized := True\<rparr>\<rparr>;
                    block2 = block1\<lparr>Consensus := (Consensus block1)\<lparr>FinalityTime := now\<rparr>\<rparr>;
                    st1 = (state ce)\<lparr>FinalizedBlocks := FinalizedBlocks (state ce) @ [ptr]\<rparr>;
                    st2 = st1\<lparr>CurrentHeight := CurrentHeight st1 + 1\<rparr>;
                    st3 = st2\<lparr>ProposerIndex := (ProposerIndex st2 + 1) smod totalValidators\<rparr>;
                    st4 = st3\<lparr>Votes := []\<rparr>
                in (None, block2, ce\<lparr>state := st4\<rparr>)
              else (Some (QuorumNotReached preCommits totalValidators), block, ce))"

definition GetState :: "InMemoryConsensusEngine \<Rightarrow> ConsensusState" where
  "GetState ce = state ce"

definition historyBlocks :: "(BlockPtr \<Rightarrow> BlockData) \<Rightarrow> InMemoryConsensusEngine \<Rightarrow> BlockData list" where
  "historyBlocks heap ce = map heap (FinalizedBlocks (state ce))"

subsection \<open>Sequences of calls\<close>

datatype call =
    CallProposeBlock time time
  | CallPreVote "nat \<Rightarrow> time" BlockData
  | CallPreCommit "nat \<Rightarrow> time" BlockData
  | CallFinalizeBlock time BlockPtr BlockData

fun perform :: "call \<Rightarrow> InMemoryConsensusEngine \<Rightarrow> InMemoryConsensusEngine" where
  "perform (CallProposeBlock now1 now2) ce = snd (ProposeBlock now1 now2 ce)"
| "perform (CallPreVote clock block) ce = snd (PreVote clock block ce)"
| "perform (CallPreCommit clock block) ce = snd (PreCommit clock block ce)"
| "perform (CallFinalizeBlock now ptr block) ce = snd (snd (FinalizeBlock now ptr block ce))"


fun run :: "call list \<Rightarrow> InMemoryConsensusEngine \<Rightarrow> InMemoryConsensusEngine" where
  "run [] ce = ce"
| "run (c # cs) ce = run cs (perform c ce)"

section \<open>The demo driver's values (cmd/ued)\<close>

definition ctx0 :: Context where
  "ctx0 = \<lparr>ctx_Height = 0, ctx_Timestamp = 0, ctx_ChainID = []\<rparr>"

definition demoValidator :: "string \<Rightarrow> ValidatorNode" where
  "demoValidator name =
     \<lparr>ID = name, Address = replicate 20 0, StakeAmount = 30000, Status = [],
      Commission = 0, CreatedAt = 0, UpdatedAt = 0, Description = [], Website = []\<rparr>"

definition demoValidators :: "ValidatorNode list" where
  "demoValidators = [demoValidator ''val1'', demoValidator ''val2'', demoValidator ''val3'']"

definition demoRegistry :: ValidatorManager where
  "demoRegistry =
     snd (RegisterNode 3 3 ctx0 (demoValidator ''val3'')
       (snd (RegisterNode 2 2 ctx0 (demoValidator ''val2'')
         (snd (RegisterNode 1 1 ctx0 (demoValidator ''val1'') NewValidatorManager)))))"

definition demoEngine :: InMemoryConsensusEngine where
  "demoEngine = NewInMemoryConsensusEngine demoRegistry demoValidators"

text \<open>The demo registry after \<open>val1\<close> was slashed for downtime at clock reading 9.\<close>

definition slashedOutRegistry :: ValidatorManager where
  "slashedOutRegistry =
     \<lparr>validators =
        [(''val1'', (demoValidator ''val1'')
            \<lparr>CreatedAt := 1, UpdatedAt := 9, Status := ValidatorStatusSlashed, StakeAmount := 0\<rparr>),
         (''val2'', (demoValidator ''val2'')
            \<lparr>CreatedAt := 2, UpdatedAt := 2, Status := ValidatorStatusActive\<rparr>),
         (''val3'', (demoValidator ''val3'')
            \<lparr>CreatedAt := 3, UpdatedAt := 3, Status := ValidatorStatusActive\<rparr>)]\<rparr>"

section \<open>Rewards as the specification words them\<close>

text \<open>
  The total active stake and the reward \<open>stake(id) * fixedBlockReward / totalActiveStake\<close>
  of the specification, over the natural numbers, where nothing wraps around; the fixed
  block reward is the source's 1000. \<open>CalculateRewards\<close> is compared with it below.
\<close>

definition totalActiveStake :: "Context \<Rightarrow> ValidatorManager \<Rightarrow> nat" where
  "totalActiveStake ctx vm =
     sum_list (map (\<lambda>v. unat (StakeAmount v)) (GetActiveValidators ctx vm))"

definition calculateReward_spec :: "Context \<Rightarrow> string \<Rightarrow> ValidatorManager \<Rightarrow> nat" where
  "calculateReward_spec ctx nodeID vm =
     (case map_of (validators vm) nodeID of
        None \<Rightarrow> 0
      | Some v \<Rightarrow>
          if totalActiveStake ctx vm = 0 then 0
          else unat (StakeAmount v) * 1000 div totalActiveStake ctx vm)"

section \<open>Further registries\<close>

text \<open>
  Registries built by the registry's own operations: one whose first stake times 1000
  exceeds 64 bits, the same after that staker has deregistered, and one of ordinary stakes
  whose larger staker has deregistered.
\<close>

definition whaleRegistry :: ValidatorManager where
  "whaleRegistry =
     snd (RegisterNode 2 2 ctx0 ((demoValidator ''val2'')\<lparr>StakeAmount := 10000000000000000\<rparr>)
       (snd (RegisterNode 1 1 ctx0 ((demoValidator ''val1'')\<lparr>StakeAmount := 18446744073709552\<rparr>)
          NewValidatorManager)))"

definition retiredWhaleRegistry :: ValidatorManager where
  "retiredWhaleRegistry = snd (DeregisterNode 3 ctx0 ''val1'' whaleRegistry)"

definition retiredRegistry :: ValidatorManager where
  "retiredRegistry =
     snd (DeregisterNode 3 ctx0 ''val1''
       (snd (RegisterNode 2 2 ctx0 (demoValidator ''val2'')
         (snd (RegisterNode 1 1 ctx0 ((demoValidator ''val1'')\<lparr>StakeAmount := 60000\<rparr>)
            NewValidatorManager)))))"

section \<open>Engine states and blocks of the demo round\<close>

text \<open>
  An engine without validators; the block that \<open>ProposeBlock\<close> returns for the demo
  engine at height 1, for the two clock readings; a pre-commit vote for that block; the
  demo engine holding the pre-commits of two of its three validators; the first three calls
  of a demo round.
\<close>

definition emptyEngine :: InMemoryConsensusEngine where
  "emptyEngine = NewInMemoryConsensusEngine NewValidatorManager []"

definition demoProposal :: "time \<Rightarrow> time \<Rightarrow> BlockData" where
  "demoProposal now1 now2 =
     \<lparr>Height = 1, Hash = ''block_1'', Timestamp = now2, Proposer = ''val1'',
      Transactions =
        [\<lparr>tx_Hash = ''tx1'', tx_From = replicate 20 0, tx_To = replicate 20 0,
          tx_Amount = \<lparr>Amount = 1, Denom = ''ue''\<rparr>, Gas = 21000, GasPrice = 1,
          Data = [], Nonce = 1, Signature = [], tx_Timestamp = Unix now1\<rparr>],
      Consensus = \<lparr>PreVotes = [], PreCommits = [], Finalized = False, FinalityTime = 0\<rparr>\<rparr>"

definition demoPreCommit :: "string \<Rightarrow> Vote" where
  "demoPreCommit name =
     \<lparr>ValidatorID = name, BlockHash = ''block_1'', vote_Timestamp = 13, vote_Type = ''pre_commit''\<rparr>"

definition partialVotesEngine :: InMemoryConsensusEngine where
  "partialVotesEngine =
     demoEngine\<lparr>state := (state demoEngine)\<lparr>Votes := [demoPreCommit ''val1'', demoPreCommit ''val2'']\<rparr>\<rparr>"

definition demoVoting :: "call list" where
  "demoVoting =
     [CallProposeBlock 10 11,
      CallPreVote (\<lambda>i. 12) (demoProposal 10 11),
      CallPreCommit (\<lambda>i. 13) (demoProposal 10 11)]"

text \<open>
  The demo block as \<open>FinalizeBlock\<close> writes it at a clock reading, and the calls that
  finalize the block at address 101, pre-commit to it again and finalize it again.
\<close>

definition finalizedAt :: "time \<Rightarrow> BlockData" where
  "finalizedAt now =
     (demoProposal 10 11)\<lparr>Consensus := \<lparr>PreVotes = [], PreCommits = [], Finalized = True, FinalityTime = now\<rparr>\<rparr>"

definition demoRefinalize :: "call list" where
  "demoRefinalize =
     [CallFinalizeBlock 14 101 (demoProposal 10 11),
      CallPreCommit (\<lambda>i. 16) (finalizedAt 14),
      CallFinalizeBlock 17 101 (finalizedAt 14)]"

section \<open>Notions of the specification and of the proofs\<close>

text \<open>
  The count that the specification names: the outstanding votes whose block hash is that
  of the block and whose phase is \<open>pre_commit\<close>.
\<close>

definition matchingPreCommits :: "BlockData \<Rightarrow> Vote list \<Rightarrow> nat" where
  "matchingPreCommits block votes =
     length (filter (\<lambda>vote. BlockHash vote = Hash block \<and> vote_Type vote = ''pre_commit'') votes)"


section \<open>Registration\<close>

lemma update_fresh_append:
  "map_of al k = None \<Longrightarrow> AList.update k v al = al @ [(k, v)]"
  by (induction al) (auto split: if_splits)

lemma map_of_None_iff_key: "map_of al k = None \<longleftrightarrow> k \<notin> fst ` set al"
  by (simp add: map_of_eq_None_iff)

text \<open>
  C6. \<open>RegisterNode\<close> returns no error exactly when the stake is at least
  \<open>MinValidatorStake\<close> = 28846 and the ID is not yet a key of the registry. A stake
  below the minimum gives \<open>InsufficientStake\<close>, an eligible stake with an ID already
  registered gives \<open>DuplicateValidator\<close>, and in both cases the manager is returned as it
  was. A success adds exactly one entry, under the node's ID, holding the node with status
  \<open>active\<close> and the two clock readings.
\<close>

theorem RegisterNode_iff_eligible_and_fresh:
  "(fst (RegisterNode t1 t2 ctx node vm) = None \<longleftrightarrow>
      28846 \<le> unat (StakeAmount node) \<and> ID node \<notin> fst ` set (validators vm))
   \<and> (unat (StakeAmount node) < 28846 \<longrightarrow>
        RegisterNode t1 t2 ctx node vm = (Some (InsufficientStake (StakeAmount node)), vm))
   \<and> (28846 \<le> unat (StakeAmount node) \<and> ID node \<in> fst ` set (validators vm) \<longrightarrow>
        RegisterNode t1 t2 ctx node vm = (Some (DuplicateValidator (ID node)), vm))
   \<and> (fst (RegisterNode t1 t2 ctx node vm) \<noteq> None \<longrightarrow>
        snd (RegisterNode t1 t2 ctx node vm) = vm)
   \<and> (fst (RegisterNode t1 t2 ctx node vm) = None \<longrightarrow>
        validators (snd (RegisterNode t1 t2 ctx node vm)) =
          validators vm @
            [(ID node, node\<lparr>CreatedAt := t1, UpdatedAt := t2, Status := ValidatorStatusActive\<rparr>)]
        \<and> length (validators (snd (RegisterNode t1 t2 ctx node vm))) = length (validators vm) + 1
        \<and> map_of (validators (snd (RegisterNode t1 t2 ctx node vm))) =
            (map_of (validators vm))
              (ID node \<mapsto> node\<lparr>CreatedAt := t1, UpdatedAt := t2, Status := ValidatorStatusActive\<rparr>))"
proof -
  have elig: "IsValidatorEligible (StakeAmount node) \<longleftrightarrow> 28846 \<le> unat (StakeAmount node)"
    by (simp add: IsValidatorEligible_def MinValidatorStake_def word_le_nat_alt)
  show ?thesis
  proof (cases "IsValidatorEligible (StakeAmount node)")
    case False
    then show ?thesis
      using elig by (simp add: RegisterNode_def)
  next
    case True
    note el = this
    show ?thesis
    proof (cases "map_of (validators vm) (ID node)")
      case None
      then have fresh: "ID node \<notin> fst ` set (validators vm)"
        by (simp add: map_of_None_iff_key)
      let ?stored = "node\<lparr>CreatedAt := t1, UpdatedAt := t2, Status := ValidatorStatusActive\<rparr>"
      have res: "RegisterNode t1 t2 ctx node vm =
          (None, vm\<lparr>validators := AList.update (ID node) ?stored (validators vm)\<rparr>)"
        using None el by (simp add: RegisterNode_def Let_def)
      have app: "AList.update (ID node) ?stored (validators vm) =
          validators vm @ [(ID node, ?stored)]"
        using None by (rule update_fresh_append)
      have mp: "map_of (AList.update (ID node) ?stored (validators vm)) =
          (map_of (validators vm))(ID node \<mapsto> ?stored)"
        by (rule update_conv')
      have "map_of (validators (snd (RegisterNode t1 t2 ctx node vm))) =
          (map_of (validators vm))(ID node \<mapsto> ?stored)"
        using mp by (simp add: res)
      moreover have "validators (snd (RegisterNode t1 t2 ctx node vm)) =
          validators vm @ [(ID node, ?stored)]"
        using app by (simp add: res)
      moreover have "fst (RegisterNode t1 t2 ctx node vm) = None"
        by (simp add: res)
      ultimately show ?thesis
        using el elig fresh by simp
    next
      case (Some v)
      then have "ID node \<in> fst ` set (validators vm)"
        using map_of_None_iff_key [of "validators vm" "ID node"] by simp
      with Some el elig show ?thesis
        by (simp add: RegisterNode_def)
    qed
  qed
qed

theorem RegisterNode_iff_eligible_and_fresh_witness:
  "fst (RegisterNode 1 1 ctx0 (demoValidator ''val1'') NewValidatorManager) = None
   \<and> validators (snd (RegisterNode 1 1 ctx0 (demoValidator ''val1'') NewValidatorManager)) =
       [(''val1'', (demoValidator ''val1'')
           \<lparr>CreatedAt := 1, UpdatedAt := 1, Status := ValidatorStatusActive\<rparr>)]
   \<and> RegisterNode 1 1 ctx0 ((demoValidator ''val1'')\<lparr>StakeAmount := 28845\<rparr>) NewValidatorManager =
       (Some (InsufficientStake 28845), NewValidatorManager)
   \<and> RegisterNode 4 4 ctx0 (demoValidator ''val2'') demoRegistry =
       (Some (DuplicateValidator ''val2''), demoRegistry)"
proof -
  have keys: "fst ` set (validators demoRegistry) = {''val1'', ''val2'', ''val3''}"
    by (simp add: demoRegistry_def RegisterNode_def IsValidatorEligible_def MinValidatorStake_def
        demoValidator_def NewValidatorManager_def Let_def insert_commute)
  show ?thesis
    using RegisterNode_iff_eligible_and_fresh
            [of 1 1 ctx0 "demoValidator ''val1''" NewValidatorManager]
          RegisterNode_iff_eligible_and_fresh
            [of 1 1 ctx0 "(demoValidator ''val1'')\<lparr>StakeAmount := 28845\<rparr>" NewValidatorManager]
          RegisterNode_iff_eligible_and_fresh
            [of 4 4 ctx0 "demoValidator ''val2''" demoRegistry]
    by (simp add: keys) (simp add: demoValidator_def NewValidatorManager_def)
qed

section \<open>Slashing\<close>

lemma slash_amount_le: "calculateSlashAmount s r \<le> s"
  by (simp add: word_le_nat_alt unat_div)

lemma unat_after_slash:
  "unat (s - calculateSlashAmount s r) = unat s - unat (calculateSlashAmount s r)"
  using slash_amount_le [of s r] by (simp add: unat_sub)

lemma SlashNode_found:
  assumes "map_of (validators vm) nodeID = Some v"
  shows "SlashNode now ctx nodeID reason vm =
    (None, vm\<lparr>validators := AList.update nodeID
       (if StakeAmount v - calculateSlashAmount (StakeAmount v) reason < MinValidatorStake
        then v\<lparr>Status := ValidatorStatusSlashed, UpdatedAt := now, StakeAmount := 0\<rparr>
        else v\<lparr>Status := ValidatorStatusSlashed,
               StakeAmount := StakeAmount v - calculateSlashAmount (StakeAmount v) reason,
               UpdatedAt := now\<rparr>) (validators vm)\<rparr>)"
  using assms by (simp add: SlashNode_def GetValidator_def Let_def del: calculateSlashAmount.simps)

text \<open>
  C5. For a registered validator, \<open>SlashNode\<close> succeeds and stores the validator with
  status \<open>slashed\<close>. The penalty is the stake divided by 2 for \<open>double_signing\<close>, by 4
  for \<open>invalid_block\<close>, by 10 for \<open>downtime\<close>, by 2 for \<open>equivocation\<close> and by 10 for
  every other cause, the quotient rounded down; it never exceeds the stake, so the
  subtraction does not wrap around. The stored stake is the stake less the penalty when
  that is at least 28846, and 0 otherwise: it is 0 or at least the minimum.
\<close>

theorem SlashNode_penalty_and_floor:
  assumes "map_of (validators vm) nodeID = Some v"
  shows "fst (SlashNode now ctx nodeID reason vm) = None \<and>
    (\<exists>v'. map_of (validators (snd (SlashNode now ctx nodeID reason vm))) nodeID = Some v' \<and>
       Status v' = ValidatorStatusSlashed \<and>
       unat (calculateSlashAmount (StakeAmount v) reason) =
         unat (StakeAmount v) div
           (if reason = SlashReasonDoubleSigning then 2
            else if reason = SlashReasonInvalidBlock then 4
            else if reason = SlashReasonDowntime then 10
            else if reason = SlashReasonEquivocation then 2
            else 10) \<and>
       unat (StakeAmount v') =
         (if unat (StakeAmount v) - unat (calculateSlashAmount (StakeAmount v) reason) < 28846
          then 0
          else unat (StakeAmount v) - unat (calculateSlashAmount (StakeAmount v) reason)) \<and>
       (unat (StakeAmount v') = 0 \<or> 28846 \<le> unat (StakeAmount v')))"
proof -
  let ?amt = "calculateSlashAmount (StakeAmount v) reason"
  let ?rest = "StakeAmount v - ?amt"
  let ?v' = "if ?rest < MinValidatorStake
        then v\<lparr>Status := ValidatorStatusSlashed, UpdatedAt := now, StakeAmount := 0\<rparr>
        else v\<lparr>Status := ValidatorStatusSlashed, StakeAmount := ?rest, UpdatedAt := now\<rparr>"
  have res: "SlashNode now ctx nodeID reason vm =
      (None, vm\<lparr>validators := AList.update nodeID ?v' (validators vm)\<rparr>)"
    using assms by (rule SlashNode_found)
  have look: "map_of (validators (snd (SlashNode now ctx nodeID reason vm))) nodeID = Some ?v'"
    by (simp add: res update_conv' del: calculateSlashAmount.simps)
  have st: "Status ?v' = ValidatorStatusSlashed" by simp
  have amt: "unat ?amt = unat (StakeAmount v) div
           (if reason = SlashReasonDoubleSigning then 2
            else if reason = SlashReasonInvalidBlock then 4
            else if reason = SlashReasonDowntime then 10
            else if reason = SlashReasonEquivocation then 2
            else 10)"
    by (simp add: unat_div SlashReasonDoubleSigning_def SlashReasonEquivocation_def
        SlashReasonInvalidBlock_def SlashReasonDowntime_def)
  have rest: "unat ?rest = unat (StakeAmount v) - unat ?amt"
    by (rule unat_after_slash)
  have lt: "?rest < MinValidatorStake \<longleftrightarrow> unat (StakeAmount v) - unat ?amt < 28846"
    by (simp only: word_less_nat_alt rest) (simp add: MinValidatorStake_def)
  have stake: "unat (StakeAmount ?v') =
         (if unat (StakeAmount v) - unat ?amt < 28846 then 0
          else unat (StakeAmount v) - unat ?amt)"
    using lt rest by (simp del: calculateSlashAmount.simps)
  have floor: "unat (StakeAmount ?v') = 0 \<or> 28846 \<le> unat (StakeAmount ?v')"
    using stake by (simp del: calculateSlashAmount.simps)
  show ?thesis
    using res look st amt stake floor by (metis fst_conv)
qed

lemma demoRegistry_validators:
  "validators demoRegistry =
     [(''val1'', (demoValidator ''val1'')\<lparr>CreatedAt := 1, UpdatedAt := 1, Status := ValidatorStatusActive\<rparr>),
      (''val2'', (demoValidator ''val2'')\<lparr>CreatedAt := 2, UpdatedAt := 2, Status := ValidatorStatusActive\<rparr>),
      (''val3'', (demoValidator ''val3'')\<lparr>CreatedAt := 3, UpdatedAt := 3, Status := ValidatorStatusActive\<rparr>)]"
  by (simp add: demoRegistry_def RegisterNode_def IsValidatorEligible_def MinValidatorStake_def
      demoValidator_def NewValidatorManager_def Let_def)

theorem SlashNode_penalty_and_floor_witness:
  "map_of (validators demoRegistry) ''val1'' =
     Some ((demoValidator ''val1'')\<lparr>CreatedAt := 1, UpdatedAt := 1, Status := ValidatorStatusActive\<rparr>)
   \<and> fst (SlashNode 9 ctx0 ''val1'' SlashReasonDowntime demoRegistry) = None
   \<and> (\<exists>v'. map_of (validators (snd (SlashNode 9 ctx0 ''val1'' SlashReasonDowntime demoRegistry))) ''val1''
             = Some v'
          \<and> Status v' = ValidatorStatusSlashed \<and> unat (StakeAmount v') = 0)"
proof -
  have h: "map_of (validators demoRegistry) ''val1'' =
     Some ((demoValidator ''val1'')\<lparr>CreatedAt := 1, UpdatedAt := 1, Status := ValidatorStatusActive\<rparr>)"
    by (simp add: demoRegistry_validators)
  have a: "unat (calculateSlashAmount 30000 SlashReasonDowntime) = 3000"
    by (simp add: SlashReasonDowntime_def SlashReasonDoubleSigning_def)
  from SlashNode_penalty_and_floor [OF h, of 9 ctx0 SlashReasonDowntime]
  obtain v' where
    "map_of (validators (snd (SlashNode 9 ctx0 ''val1'' SlashReasonDowntime demoRegistry))) ''val1''
       = Some v'"
    "Status v' = ValidatorStatusSlashed"
    "unat (StakeAmount v') =
       (if unat (StakeAmount ((demoValidator ''val1'')
              \<lparr>CreatedAt := 1, UpdatedAt := 1, Status := ValidatorStatusActive\<rparr>))
           - unat (calculateSlashAmount (StakeAmount ((demoValidator ''val1'')
              \<lparr>CreatedAt := 1, UpdatedAt := 1, Status := ValidatorStatusActive\<rparr>)) SlashReasonDowntime)
           < 28846
        then 0
        else unat (StakeAmount ((demoValidator ''val1'')
              \<lparr>CreatedAt := 1, UpdatedAt := 1, Status := ValidatorStatusActive\<rparr>))
           - unat (calculateSlashAmount (StakeAmount ((demoValidator ''val1'')
              \<lparr>CreatedAt := 1, UpdatedAt := 1, Status := ValidatorStatusActive\<rparr>)) SlashReasonDowntime))"
    by blast
  moreover have "StakeAmount ((demoValidator ''val1'')
              \<lparr>CreatedAt := 1, UpdatedAt := 1, Status := ValidatorStatusActive\<rparr>) = 30000"
    by (simp add: demoValidator_def)
  ultimately have "\<exists>v'. map_of (validators (snd (SlashNode 9 ctx0 ''val1'' SlashReasonDowntime demoRegistry))) ''val1''
             = Some v'
          \<and> Status v' = ValidatorStatusSlashed \<and> unat (StakeAmount v') = 0"
    using a by (auto simp del: calculateSlashAmount.simps)
  moreover have "fst (SlashNode 9 ctx0 ''val1'' SlashReasonDowntime demoRegistry) = None"
    using SlashNode_penalty_and_floor [OF h, of 9 ctx0 SlashReasonDowntime] by blast
  ultimately show ?thesis using h by blast
qed

section \<open>Slashing keeps no history\<close>

lemma demoRegistry_eq:
  "demoRegistry = \<lparr>validators =
     [(''val1'', (demoValidator ''val1'')\<lparr>CreatedAt := 1, UpdatedAt := 1, Status := ValidatorStatusActive\<rparr>),
      (''val2'', (demoValidator ''val2'')\<lparr>CreatedAt := 2, UpdatedAt := 2, Status := ValidatorStatusActive\<rparr>),
      (''val3'', (demoValidator ''val3'')\<lparr>CreatedAt := 3, UpdatedAt := 3, Status := ValidatorStatusActive\<rparr>)]\<rparr>"
  by (simp add: demoRegistry_def RegisterNode_def IsValidatorEligible_def MinValidatorStake_def
      demoValidator_def NewValidatorManager_def Let_def)

text \<open>
  C3, as stated, fails. The manager holds the validator map and nothing else, and
  \<open>SlashNode\<close> builds no \<open>SlashRecord\<close>: slashing \<open>val1\<close> of the demo registry for
  downtime returns exactly the registry with that one entry rewritten, and slashing it
  again at the same clock reading succeeds and returns the manager it was given, so
  nothing was appended anywhere.
\<close>

theorem SlashNode_appends_no_record:
  "SlashNode 9 ctx0 ''val1'' SlashReasonDowntime demoRegistry = (None, slashedOutRegistry)
   \<and> SlashNode 9 ctx0 ''val1'' SlashReasonDowntime slashedOutRegistry = (None, slashedOutRegistry)"
proof -
  have a: "SlashNode 9 ctx0 ''val1'' SlashReasonDowntime demoRegistry = (None, slashedOutRegistry)"
    unfolding demoRegistry_eq slashedOutRegistry_def
    by (simp add: SlashNode_def GetValidator_def Let_def
      MinValidatorStake_def demoValidator_def SlashReasonDowntime_def SlashReasonDoubleSigning_def)
  have b: "SlashNode 9 ctx0 ''val1'' SlashReasonDowntime slashedOutRegistry = (None, slashedOutRegistry)"
    unfolding slashedOutRegistry_def
    by (simp add: SlashNode_def GetValidator_def Let_def
      MinValidatorStake_def demoValidator_def SlashReasonDowntime_def SlashReasonDoubleSigning_def)
  from a b show ?thesis by simp
qed

lemma slashed_stake_unat:
  "unat (if s - calculateSlashAmount s r < MinValidatorStake then 0
         else s - calculateSlashAmount s r) =
     (if unat s - unat s div
           (if r = SlashReasonDoubleSigning then 2
            else if r = SlashReasonInvalidBlock then 4
            else if r = SlashReasonDowntime then 10
            else if r = SlashReasonEquivocation then 2
            else 10) < 28846
      then 0
      else unat s - unat s div
           (if r = SlashReasonDoubleSigning then 2
            else if r = SlashReasonInvalidBlock then 4
            else if r = SlashReasonDowntime then 10
            else if r = SlashReasonEquivocation then 2
            else 10))"
proof -
  let ?amt = "calculateSlashAmount s r"
  have amt: "unat ?amt = unat s div
           (if r = SlashReasonDoubleSigning then 2
            else if r = SlashReasonInvalidBlock then 4
            else if r = SlashReasonDowntime then 10
            else if r = SlashReasonEquivocation then 2
            else 10)"
    by (simp add: unat_div SlashReasonDoubleSigning_def SlashReasonEquivocation_def
        SlashReasonInvalidBlock_def SlashReasonDowntime_def)
  have rest: "unat (s - ?amt) = unat s - unat ?amt"
    by (rule unat_after_slash)
  have lt: "s - ?amt < MinValidatorStake \<longleftrightarrow> unat s - unat ?amt < 28846"
    by (simp only: word_less_nat_alt rest) (simp add: MinValidatorStake_def)
  have "unat (if s - ?amt < MinValidatorStake then 0 else s - ?amt) =
      (if unat s - unat ?amt < 28846 then 0 else unat s - unat ?amt)"
    using lt rest by (simp del: calculateSlashAmount.simps)
  then show ?thesis by (simp only: amt)
qed

text \<open>
  C3, amended. For a registered validator and every cause, \<open>SlashNode\<close> succeeds and
  replaces that validator's entry by the same node with status \<open>slashed\<close>, the clock
  reading as update time and the reduced stake: the stake less the penalty of the cause
  (the stake divided by 2, 4 or 10, rounded down), or 0 when that is below 28846. Every
  other field of the node, the keys of the registry, their order and every other entry
  stay as they were. The result is the manager with this one entry rewritten: no slash
  record is built or kept.
\<close>

theorem SlashNode_replaces_one_entry:
  assumes "map_of (validators vm) nodeID = Some v"
  shows "fst (SlashNode now ctx nodeID reason vm) = None \<and>
    (\<exists>v'. snd (SlashNode now ctx nodeID reason vm) =
             vm\<lparr>validators := AList.update nodeID v' (validators vm)\<rparr> \<and>
          map_of (validators (snd (SlashNode now ctx nodeID reason vm))) nodeID = Some v' \<and>
          v' = v\<lparr>Status := ValidatorStatusSlashed, StakeAmount := StakeAmount v', UpdatedAt := now\<rparr> \<and>
          unat (StakeAmount v') =
            (if unat (StakeAmount v) - unat (StakeAmount v) div
                  (if reason = SlashReasonDoubleSigning then 2
                   else if reason = SlashReasonInvalidBlock then 4
                   else if reason = SlashReasonDowntime then 10
                   else if reason = SlashReasonEquivocation then 2
                   else 10) < 28846
             then 0
             else unat (StakeAmount v) - unat (StakeAmount v) div
                  (if reason = SlashReasonDoubleSigning then 2
                   else if reason = SlashReasonInvalidBlock then 4
                   else if reason = SlashReasonDowntime then 10
                   else if reason = SlashReasonEquivocation then 2
                   else 10)) \<and>
          unat (StakeAmount v') \<le> unat (StakeAmount v)) \<and>
    map fst (validators (snd (SlashNode now ctx nodeID reason vm))) = map fst (validators vm) \<and>
    (\<forall>k. k \<noteq> nodeID \<longrightarrow>
       map_of (validators (snd (SlashNode now ctx nodeID reason vm))) k = map_of (validators vm) k)"
proof -
  let ?new = "if StakeAmount v - calculateSlashAmount (StakeAmount v) reason < MinValidatorStake
        then 0 else StakeAmount v - calculateSlashAmount (StakeAmount v) reason"
  let ?v' = "if StakeAmount v - calculateSlashAmount (StakeAmount v) reason < MinValidatorStake
        then v\<lparr>Status := ValidatorStatusSlashed, UpdatedAt := now, StakeAmount := 0\<rparr>
        else v\<lparr>Status := ValidatorStatusSlashed,
               StakeAmount := StakeAmount v - calculateSlashAmount (StakeAmount v) reason,
               UpdatedAt := now\<rparr>"
  have res: "SlashNode now ctx nodeID reason vm =
      (None, vm\<lparr>validators := AList.update nodeID ?v' (validators vm)\<rparr>)"
    using assms by (rule SlashNode_found)
  have key: "nodeID \<in> set (map fst (validators vm))"
    using assms by (metis map_of_eq_None_iff option.distinct(1) set_map)
  have keys: "map fst (AList.update nodeID ?v' (validators vm)) = map fst (validators vm)"
    using key by (simp only: update_keys if_True)
  have others: "\<forall>k. k \<noteq> nodeID \<longrightarrow>
      map_of (AList.update nodeID ?v' (validators vm)) k = map_of (validators vm) k"
    by (simp add: update_conv' del: calculateSlashAmount.simps)
  have look: "map_of (AList.update nodeID ?v' (validators vm)) nodeID = Some ?v'"
    by (simp add: update_conv' del: calculateSlashAmount.simps)
  have st: "StakeAmount ?v' = ?new"
    by (simp del: calculateSlashAmount.simps)
  have shape: "?v' = v\<lparr>Status := ValidatorStatusSlashed, StakeAmount := StakeAmount ?v', UpdatedAt := now\<rparr>"
    by (simp del: calculateSlashAmount.simps)
  have num: "unat (StakeAmount ?v') =
            (if unat (StakeAmount v) - unat (StakeAmount v) div
                  (if reason = SlashReasonDoubleSigning then 2
                   else if reason = SlashReasonInvalidBlock then 4
                   else if reason = SlashReasonDowntime then 10
                   else if reason = SlashReasonEquivocation then 2
                   else 10) < 28846
             then 0
             else unat (StakeAmount v) - unat (StakeAmount v) div
                  (if reason = SlashReasonDoubleSigning then 2
                   else if reason = SlashReasonInvalidBlock then 4
                   else if reason = SlashReasonDowntime then 10
                   else if reason = SlashReasonEquivocation then 2
                   else 10))"
    by (simp only: st slashed_stake_unat)
  have le: "unat (StakeAmount ?v') \<le> unat (StakeAmount v)"
    by (simp only: num) simp
  have ex: "\<exists>v'. snd (SlashNode now ctx nodeID reason vm) =
             vm\<lparr>validators := AList.update nodeID v' (validators vm)\<rparr> \<and>
          map_of (validators (snd (SlashNode now ctx nodeID reason vm))) nodeID = Some v' \<and>
          v' = v\<lparr>Status := ValidatorStatusSlashed, StakeAmount := StakeAmount v', UpdatedAt := now\<rparr> \<and>
          unat (StakeAmount v') =
            (if unat (StakeAmount v) - unat (StakeAmount v) div
                  (if reason = SlashReasonDoubleSigning then 2
                   else if reason = SlashReasonInvalidBlock then 4
                   else if reason = SlashReasonDowntime then 10
                   else if reason = SlashReasonEquivocation then 2
                   else 10) < 28846
             then 0
             else unat (StakeAmount v) - unat (StakeAmount v) div
                  (if reason = SlashReasonDoubleSigning then 2
                   else if reason = SlashReasonInvalidBlock then 4
                   else if reason = SlashReasonDowntime then 10
                   else if reason = SlashReasonEquivocation then 2
                   else 10)) \<and>
          unat (StakeAmount v') \<le> unat (StakeAmount v)"
  proof (intro exI conjI)
    show "snd (SlashNode now ctx nodeID reason vm) =
        vm\<lparr>validators := AList.update nodeID ?v' (validators vm)\<rparr>"
      by (simp only: res snd_conv)
    show "map_of (validators (snd (SlashNode now ctx nodeID reason vm))) nodeID = Some ?v'"
      using look by (simp only: res snd_conv) simp
    show "?v' = v\<lparr>Status := ValidatorStatusSlashed, StakeAmount := StakeAmount ?v', UpdatedAt := now\<rparr>"
      by (rule shape)
    show "unat (StakeAmount ?v') =
            (if unat (StakeAmount v) - unat (StakeAmount v) div
                  (if reason = SlashReasonDoubleSigning then 2
                   else if reason = SlashReasonInvalidBlock then 4
                   else if reason = SlashReasonDowntime then 10
                   else if reason = SlashReasonEquivocation then 2
                   else 10) < 28846
             then 0
             else unat (StakeAmount v) - unat (StakeAmount v) div
                  (if reason = SlashReasonDoubleSigning then 2
                   else if reason = SlashReasonInvalidBlock then 4
                   else if reason = SlashReasonDowntime then 10
                   else if reason = SlashReasonEquivocation then 2
                   else 10))"
      by (rule num)
    show "unat (StakeAmount ?v') \<le> unat (StakeAmount v)" by (rule le)
  qed
  have k2: "map fst (validators (snd (SlashNode now ctx nodeID reason vm))) = map fst (validators vm)"
    using keys by (simp only: res snd_conv) simp
  have o2: "\<forall>k. k \<noteq> nodeID \<longrightarrow>
       map_of (validators (snd (SlashNode now ctx nodeID reason vm))) k = map_of (validators vm) k"
    using others by (simp only: res snd_conv) simp
  have f: "fst (SlashNode now ctx nodeID reason vm) = None" by (simp only: res fst_conv)
  from f ex k2 o2 show ?thesis by blast
qed

theorem SlashNode_replaces_one_entry_witness:
  "map_of (validators demoRegistry) ''val2'' =
     Some ((demoValidator ''val2'')\<lparr>CreatedAt := 2, UpdatedAt := 2, Status := ValidatorStatusActive\<rparr>)
   \<and> fst (SlashNode 9 ctx0 ''val2'' SlashReasonInvalidBlock demoRegistry) = None
   \<and> map_of (validators (snd (SlashNode 9 ctx0 ''val2'' SlashReasonInvalidBlock demoRegistry))) ''val2'' =
       Some ((demoValidator ''val2'')
          \<lparr>CreatedAt := 2, UpdatedAt := 9, Status := ValidatorStatusSlashed, StakeAmount := 0\<rparr>)
   \<and> map fst (validators (snd (SlashNode 9 ctx0 ''val2'' SlashReasonInvalidBlock demoRegistry))) =
       [''val1'', ''val2'', ''val3'']
   \<and> map_of (validators (snd (SlashNode 9 ctx0 ''val2'' SlashReasonInvalidBlock demoRegistry))) ''val3'' =
       Some ((demoValidator ''val3'')\<lparr>CreatedAt := 3, UpdatedAt := 3, Status := ValidatorStatusActive\<rparr>)"
proof -
  let ?v = "(demoValidator ''val2'')\<lparr>CreatedAt := 2, UpdatedAt := 2, Status := ValidatorStatusActive\<rparr>"
  let ?S = "snd (SlashNode 9 ctx0 ''val2'' SlashReasonInvalidBlock demoRegistry)"
  have h: "map_of (validators demoRegistry) ''val2'' = Some ?v"
    by (simp add: demoRegistry_validators)
  have k: "map fst (validators demoRegistry) = [''val1'', ''val2'', ''val3'']"
    by (simp add: demoRegistry_validators)
  have m: "map_of (validators demoRegistry) ''val3'' =
       Some ((demoValidator ''val3'')\<lparr>CreatedAt := 3, UpdatedAt := 3, Status := ValidatorStatusActive\<rparr>)"
    by (simp add: demoRegistry_validators)
  have s: "unat (StakeAmount ?v) = 30000" by (simp add: demoValidator_def)
  have r: "SlashReasonInvalidBlock \<noteq> SlashReasonDoubleSigning"
    by (simp add: SlashReasonInvalidBlock_def SlashReasonDoubleSigning_def)
  note T = SlashNode_replaces_one_entry [OF h, of 9 ctx0 SlashReasonInvalidBlock]
  from T obtain v' where
    look: "map_of (validators ?S) ''val2'' = Some v'"
    and shape: "v' = ?v\<lparr>Status := ValidatorStatusSlashed, StakeAmount := StakeAmount v', UpdatedAt := 9\<rparr>"
    and num: "unat (StakeAmount v') =
            (if unat (StakeAmount ?v) - unat (StakeAmount ?v) div
                  (if SlashReasonInvalidBlock = SlashReasonDoubleSigning then 2
                   else if SlashReasonInvalidBlock = SlashReasonInvalidBlock then 4
                   else if SlashReasonInvalidBlock = SlashReasonDowntime then 10
                   else if SlashReasonInvalidBlock = SlashReasonEquivocation then 2
                   else 10) < 28846
             then 0
             else unat (StakeAmount ?v) - unat (StakeAmount ?v) div
                  (if SlashReasonInvalidBlock = SlashReasonDoubleSigning then 2
                   else if SlashReasonInvalidBlock = SlashReasonInvalidBlock then 4
                   else if SlashReasonInvalidBlock = SlashReasonDowntime then 10
                   else if SlashReasonInvalidBlock = SlashReasonEquivocation then 2
                   else 10))"
    by blast
  from num have "unat (StakeAmount v') = 0"
    by (simp only: s r if_False if_True refl) simp
  then have z: "StakeAmount v' = 0" by (simp add: unat_eq_zero)
  have v': "v' = (demoValidator ''val2'')
          \<lparr>CreatedAt := 2, UpdatedAt := 9, Status := ValidatorStatusSlashed, StakeAmount := 0\<rparr>"
    by (subst shape) (simp add: z)
  from T
  have "fst (SlashNode 9 ctx0 ''val2'' SlashReasonInvalidBlock demoRegistry) = None"
    and "map fst (validators ?S) = map fst (validators demoRegistry)"
    and "map_of (validators ?S) ''val3'' = map_of (validators demoRegistry) ''val3''"
    by simp_all
  with h k m look v' show ?thesis by simp
qed

section \<open>Rewards\<close>

lemma sumStake_sum_list: "sumStake vs acc = acc + sum_list (map StakeAmount vs)"
  by (induction vs arbitrary: acc) (simp_all add: add.assoc)

text \<open>
  The order in which a Go map is ranged over is not fixed; the total does not depend on
  it.
\<close>

lemma sumStake_order_irrelevant:
  assumes "mset vs = mset ws"
  shows "sumStake vs acc = sumStake ws acc"
proof -
  from assms have "mset (map StakeAmount vs) = mset (map StakeAmount ws)"
    by (metis mset_map)
  then have "sum_list (map StakeAmount vs) = sum_list (map StakeAmount ws)"
    by (metis sum_mset_sum_list)
  then show ?thesis by (simp add: sumStake_sum_list)
qed

lemma unat_sum_list_no_wrap:
  "sum_list (map unat ws) < 2 ^ 64 \<Longrightarrow> unat (sum_list ws :: uint64) = sum_list (map unat ws)"
proof (induction ws)
  case Nil
  then show ?case by simp
next
  case (Cons w ws)
  then have "sum_list (map unat ws) < 2 ^ 64" by simp
  with Cons.IH have ih: "unat (sum_list ws) = sum_list (map unat ws)" by simp
  have "unat (w + sum_list ws) = (unat w + unat (sum_list ws)) mod 2 ^ 64"
    by (simp add: unat_word_ariths)
  with ih Cons.prems show ?case by simp
qed

lemma GetTotalStake_unat:
  assumes "totalActiveStake ctx vm < 2 ^ 64"
  shows "unat (GetTotalStake ctx vm) = totalActiveStake ctx vm"
proof -
  have "sum_list (map unat (map StakeAmount (GetActiveValidators ctx vm))) = totalActiveStake ctx vm"
    by (simp add: totalActiveStake_def comp_def)
  with assms unat_sum_list_no_wrap [of "map StakeAmount (GetActiveValidators ctx vm)"]
  show ?thesis by (simp add: GetTotalStake_def sumStake_sum_list)
qed

lemma CalculateRewards_found:
  "map_of (validators vm) nodeID = Some v \<Longrightarrow>
   CalculateRewards ctx nodeID vm =
     CalculateValidatorReward (StakeAmount v) (GetTotalStake ctx vm) 1000"
  by (simp add: CalculateRewards_def GetValidator_def GetTotalStake_def Let_def)

lemma CalculateRewards_missing:
  "map_of (validators vm) nodeID = None \<Longrightarrow> CalculateRewards ctx nodeID vm = 0"
  by (simp add: CalculateRewards_def GetValidator_def)

lemma unat_times_1000:
  assumes "unat (s :: uint64) * 1000 < 2 ^ 64"
  shows "unat (s * 1000) = unat s * 1000"
proof -
  have "unat (s * 1000) = unat s * unat (1000 :: uint64) mod 2 ^ 64"
    by (simp add: unat_word_ariths)
  with assms show ?thesis by simp
qed

lemma reward_exact:
  assumes "unat (s :: uint64) * 1000 < 2 ^ 64"
  shows "unat (CalculateValidatorReward s t 1000) = unat s * 1000 div unat t"
proof (cases "t = 0")
  case True
  then show ?thesis by (simp add: CalculateValidatorReward_def)
next
  case False
  then show ?thesis
    using unat_times_1000 [OF assms] by (simp add: CalculateValidatorReward_def unat_div)
qed

lemma floor_share_proportional:
  fixes sA sB :: nat
  shows "(sA * 1000 div (sA + sB)) * sB \<le> (sB * 1000 div (sA + sB)) * sA + sA"
proof (cases "sA + sB = 0")
  case True
  then show ?thesis by simp
next
  case False
  define T where "T = sA + sB"
  define rA where "rA = sA * 1000 div T"
  define rB where "rB = sB * 1000 div T"
  have Tpos: "0 < T" using False by (simp add: T_def)
  have lo: "rA * T \<le> sA * 1000"
    unfolding rA_def by (rule div_times_less_eq_dividend)
  have hi: "sB * 1000 < (rB + 1) * T"
    unfolding rB_def using Tpos by (simp add: dividend_less_div_times)
  have "(rA * sB) * T = (rA * T) * sB" by (simp add: ac_simps)
  also have "\<dots> \<le> (sA * 1000) * sB" using lo by (rule mult_le_mono1)
  also have "\<dots> = sA * (sB * 1000)" by (simp add: ac_simps)
  also have "\<dots> \<le> sA * ((rB + 1) * T)" using hi by (simp add: less_imp_le)
  also have "\<dots> = (rB * sA + sA) * T" by (simp add: algebra_simps)
  finally have "(rA * sB) * T \<le> (rB * sA + sA) * T" .
  with Tpos have "rA * sB \<le> rB * sA + sA" by simp
  then show ?thesis by (simp add: rA_def rB_def T_def)
qed

lemma whaleRegistry_eq:
  "whaleRegistry = \<lparr>validators =
     [(''val1'', (demoValidator ''val1'')
         \<lparr>StakeAmount := 18446744073709552, CreatedAt := 1, UpdatedAt := 1, Status := ValidatorStatusActive\<rparr>),
      (''val2'', (demoValidator ''val2'')
         \<lparr>StakeAmount := 10000000000000000, CreatedAt := 2, UpdatedAt := 2, Status := ValidatorStatusActive\<rparr>)]\<rparr>"
  by (simp add: whaleRegistry_def RegisterNode_def IsValidatorEligible_def MinValidatorStake_def
      demoValidator_def NewValidatorManager_def Let_def)

lemma whale_total: "GetTotalStake ctx0 whaleRegistry = 28446744073709552"
  by (simp add: whaleRegistry_eq GetTotalStake_def GetActiveValidators_def demoValidator_def)

lemma whale_total_spec: "totalActiveStake ctx0 whaleRegistry = 28446744073709552"
  by (simp add: whaleRegistry_eq totalActiveStake_def GetActiveValidators_def demoValidator_def)

text \<open>
  C8. The reward of a registered validator is to be
  \<open>stake(id) * fixedBlockReward / totalActiveStake\<close>, rounded down, and so proportional
  to the stake. The code breaks this at the following registry: \<open>val1\<close> stakes
  18446744073709552 and \<open>val2\<close> stakes 10000000000000000, both registered and active,
  nobody else. The
  product \<open>stake * blockReward\<close> of \<open>val1\<close> does not fit in 64 bits and comes out
  as 384, so \<open>CalculateRewards\<close> returns 0 for \<open>val1\<close> where
  \<open>stake(id) * fixedBlockReward / totalActiveStake\<close> is 648, and the larger staker earns
  nothing while the smaller one earns 351: the rewards are not proportional to the
  stakes.
\<close>

theorem CalculateRewards_wraps_around:
  "CalculateRewards ctx0 ''val1'' whaleRegistry = 0
   \<and> calculateReward_spec ctx0 ''val1'' whaleRegistry = 648
   \<and> CalculateRewards ctx0 ''val2'' whaleRegistry = 351
   \<and> calculateReward_spec ctx0 ''val2'' whaleRegistry = 351"
proof -
  have l1: "map_of (validators whaleRegistry) ''val1'' = Some ((demoValidator ''val1'')
         \<lparr>StakeAmount := 18446744073709552, CreatedAt := 1, UpdatedAt := 1, Status := ValidatorStatusActive\<rparr>)"
    by (simp add: whaleRegistry_eq)
  have l2: "map_of (validators whaleRegistry) ''val2'' = Some ((demoValidator ''val2'')
         \<lparr>StakeAmount := 10000000000000000, CreatedAt := 2, UpdatedAt := 2, Status := ValidatorStatusActive\<rparr>)"
    by (simp add: whaleRegistry_eq)
  have a: "CalculateRewards ctx0 ''val1'' whaleRegistry = 0"
    by (simp add: CalculateRewards_found [OF l1] whale_total CalculateValidatorReward_def)
  have b: "CalculateRewards ctx0 ''val2'' whaleRegistry = 351"
    by (simp add: CalculateRewards_found [OF l2] whale_total CalculateValidatorReward_def)
  have c: "calculateReward_spec ctx0 ''val1'' whaleRegistry = 648"
    by (simp add: calculateReward_spec_def l1 whale_total_spec)
  have d: "calculateReward_spec ctx0 ''val2'' whaleRegistry = 351"
    by (simp add: calculateReward_spec_def l2 whale_total_spec)
  from a b c d show ?thesis by simp
qed

text \<open>
  Where the product \<open>stake * 1000\<close> and the sum of the active stakes stay below
  \<open>2 ^ 64\<close>, \<open>CalculateRewards\<close> does compute the quotient of the specification, and
  the rewards of two active validators are proportional to their stakes up to the
  rounding; it returns 0 for an ID that is not registered and for a total of 0.
\<close>

lemma CalculateRewards_without_wrap:
  "(map_of (validators vm) nodeID = None \<longrightarrow> CalculateRewards ctx nodeID vm = 0)
   \<and> (GetTotalStake ctx vm = 0 \<longrightarrow> CalculateRewards ctx nodeID vm = 0)
   \<and> (totalActiveStake ctx vm = 0 \<longrightarrow> CalculateRewards ctx nodeID vm = 0)
   \<and> (\<forall>v. map_of (validators vm) nodeID = Some v \<longrightarrow>
         CalculateRewards ctx nodeID vm =
           (if GetTotalStake ctx vm = 0 then 0
            else (StakeAmount v * 1000) div GetTotalStake ctx vm))
   \<and> (totalActiveStake ctx vm < 2 ^ 64
        \<and> (\<forall>v. map_of (validators vm) nodeID = Some v \<longrightarrow> unat (StakeAmount v) * 1000 < 2 ^ 64)
       \<longrightarrow> unat (CalculateRewards ctx nodeID vm) = calculateReward_spec ctx nodeID vm)
   \<and> (\<forall>idA idB a b.
         map_of (validators vm) idA = Some a \<and> map_of (validators vm) idB = Some b
         \<and> GetActiveValidators ctx vm = [a, b]
         \<and> unat (StakeAmount a) * 1000 < 2 ^ 64 \<and> unat (StakeAmount b) * 1000 < 2 ^ 64
       \<longrightarrow> unat (CalculateRewards ctx idA vm) * unat (StakeAmount b)
             \<le> unat (CalculateRewards ctx idB vm) * unat (StakeAmount a) + unat (StakeAmount a)
           \<and> unat (CalculateRewards ctx idB vm) * unat (StakeAmount a)
             \<le> unat (CalculateRewards ctx idA vm) * unat (StakeAmount b) + unat (StakeAmount b))"
proof (intro conjI)
  show "map_of (validators vm) nodeID = None \<longrightarrow> CalculateRewards ctx nodeID vm = 0"
    by (simp add: CalculateRewards_missing)
  show zero: "GetTotalStake ctx vm = 0 \<longrightarrow> CalculateRewards ctx nodeID vm = 0"
    by (cases "map_of (validators vm) nodeID")
       (simp_all add: CalculateRewards_missing CalculateRewards_found CalculateValidatorReward_def)
  show "totalActiveStake ctx vm = 0 \<longrightarrow> CalculateRewards ctx nodeID vm = 0"
  proof
    assume t0: "totalActiveStake ctx vm = 0"
    then have "totalActiveStake ctx vm < 2 ^ 64" by simp
    then have "unat (GetTotalStake ctx vm) = totalActiveStake ctx vm"
      by (rule GetTotalStake_unat)
    with t0 have "GetTotalStake ctx vm = 0" by (simp add: unat_eq_zero)
    with zero show "CalculateRewards ctx nodeID vm = 0" by simp
  qed
  show "\<forall>v. map_of (validators vm) nodeID = Some v \<longrightarrow>
         CalculateRewards ctx nodeID vm =
           (if GetTotalStake ctx vm = 0 then 0
            else (StakeAmount v * 1000) div GetTotalStake ctx vm)"
    by (simp add: CalculateRewards_found CalculateValidatorReward_def)
  show "totalActiveStake ctx vm < 2 ^ 64
        \<and> (\<forall>v. map_of (validators vm) nodeID = Some v \<longrightarrow> unat (StakeAmount v) * 1000 < 2 ^ 64)
       \<longrightarrow> unat (CalculateRewards ctx nodeID vm) = calculateReward_spec ctx nodeID vm"
  proof (intro impI, elim conjE)
    assume tot: "totalActiveStake ctx vm < 2 ^ 64"
      and st: "\<forall>v. map_of (validators vm) nodeID = Some v \<longrightarrow> unat (StakeAmount v) * 1000 < 2 ^ 64"
    show "unat (CalculateRewards ctx nodeID vm) = calculateReward_spec ctx nodeID vm"
    proof (cases "map_of (validators vm) nodeID")
      case None
      then show ?thesis
        by (simp add: CalculateRewards_missing calculateReward_spec_def)
    next
      case (Some v)
      with st have fit: "unat (StakeAmount v) * 1000 < 2 ^ 64" by simp
      have "unat (CalculateRewards ctx nodeID vm) =
          unat (StakeAmount v) * 1000 div unat (GetTotalStake ctx vm)"
        by (simp only: CalculateRewards_found [OF Some] reward_exact [OF fit])
      then show ?thesis
        using Some by (simp add: calculateReward_spec_def GetTotalStake_unat [OF tot])
    qed
  qed
  show "\<forall>idA idB a b.
         map_of (validators vm) idA = Some a \<and> map_of (validators vm) idB = Some b
         \<and> GetActiveValidators ctx vm = [a, b]
         \<and> unat (StakeAmount a) * 1000 < 2 ^ 64 \<and> unat (StakeAmount b) * 1000 < 2 ^ 64
       \<longrightarrow> unat (CalculateRewards ctx idA vm) * unat (StakeAmount b)
             \<le> unat (CalculateRewards ctx idB vm) * unat (StakeAmount a) + unat (StakeAmount a)
           \<and> unat (CalculateRewards ctx idB vm) * unat (StakeAmount a)
             \<le> unat (CalculateRewards ctx idA vm) * unat (StakeAmount b) + unat (StakeAmount b)"
  proof (intro allI impI, elim conjE)
    fix idA idB a b
    assume la: "map_of (validators vm) idA = Some a"
      and lb: "map_of (validators vm) idB = Some b"
      and act: "GetActiveValidators ctx vm = [a, b]"
      and fa: "unat (StakeAmount a) * 1000 < 2 ^ 64"
      and fb: "unat (StakeAmount b) * 1000 < 2 ^ 64"
    let ?sA = "unat (StakeAmount a)" and ?sB = "unat (StakeAmount b)"
    have tot_eq: "totalActiveStake ctx vm = ?sA + ?sB"
      by (simp add: totalActiveStake_def act)
    have "?sA + ?sB < 2 ^ 64" using fa fb by simp
    then have tot: "totalActiveStake ctx vm < 2 ^ 64" by (simp add: tot_eq)
    have T: "unat (GetTotalStake ctx vm) = ?sA + ?sB"
      using GetTotalStake_unat [OF tot] by (simp add: tot_eq)
    have rA: "unat (CalculateRewards ctx idA vm) = ?sA * 1000 div (?sA + ?sB)"
      by (simp only: CalculateRewards_found [OF la] reward_exact [OF fa] T)
    have rB: "unat (CalculateRewards ctx idB vm) = ?sB * 1000 div (?sA + ?sB)"
      by (simp only: CalculateRewards_found [OF lb] reward_exact [OF fb] T)
    have one: "(?sA * 1000 div (?sA + ?sB)) * ?sB \<le> (?sB * 1000 div (?sA + ?sB)) * ?sA + ?sA"
      by (rule floor_share_proportional)
    have two: "(?sB * 1000 div (?sB + ?sA)) * ?sA \<le> (?sA * 1000 div (?sB + ?sA)) * ?sB + ?sB"
      by (rule floor_share_proportional)
    from one two show "unat (CalculateRewards ctx idA vm) * ?sB
             \<le> unat (CalculateRewards ctx idB vm) * ?sA + ?sA
           \<and> unat (CalculateRewards ctx idB vm) * ?sA
             \<le> unat (CalculateRewards ctx idA vm) * ?sB + ?sB"
      by (simp only: rA rB add.commute [of ?sB ?sA])
  qed
qed

text \<open>
  A new manager has distinct keys, and every operation of the registry keeps them
  distinct.
\<close>

lemma registry_ok_New: "registry_ok NewValidatorManager"
  by (simp add: registry_ok_def NewValidatorManager_def)

lemma registry_ok_RegisterNode:
  "registry_ok vm \<Longrightarrow> registry_ok (snd (RegisterNode t1 t2 ctx node vm))"
  by (simp add: registry_ok_def RegisterNode_def Let_def distinct_update)

lemma registry_ok_DeregisterNode:
  "registry_ok vm \<Longrightarrow> registry_ok (snd (DeregisterNode t ctx nodeID vm))"
  by (simp add: registry_ok_def DeregisterNode_def Let_def distinct_update split: option.splits)

lemma registry_ok_UpdateValidator:
  "registry_ok vm \<Longrightarrow> registry_ok (snd (UpdateValidator t ctx node vm))"
  by (simp add: registry_ok_def UpdateValidator_def Let_def distinct_update)

lemma registry_ok_SlashNode:
  "registry_ok vm \<Longrightarrow> registry_ok (snd (SlashNode t ctx nodeID reason vm))"
  by (simp add: registry_ok_def SlashNode_def GetValidator_def Let_def distinct_update
      split: option.splits del: calculateSlashAmount.simps)

lemma filter_delete_rejected:
  assumes "distinct (map fst al)" and "map_of al k = Some v" and "\<not> P (k, v)"
  shows "filter P (AList.delete k al) = filter P al"
proof -
  have "\<forall>x \<in> set al. (P x \<and> k \<noteq> fst x) = P x"
  proof
    fix x assume x: "x \<in> set al"
    show "(P x \<and> k \<noteq> fst x) = P x"
    proof (cases "fst x = k")
      case True
      then have "(k, snd x) \<in> set al" using x by (metis prod.collapse)
      with assms(1) have "map_of al k = Some (snd x)" by (rule map_of_is_SomeI)
      with assms(2) have "snd x = v" by simp
      with True have "x = (k, v)" by (metis prod.collapse)
      with assms(3) True show ?thesis by simp
    next
      case False
      then show ?thesis by simp
    qed
  qed
  then have "filter (\<lambda>x. P x \<and> k \<noteq> fst x) al = filter P al"
    by (metis (mono_tags, lifting) filter_cong)
  moreover have "filter P (AList.delete k al) = filter (\<lambda>x. P x \<and> k \<noteq> fst x) al"
    by (simp add: AList.delete_eq case_prod_beta' conj_commute)
  ultimately show ?thesis by simp
qed

lemma GetActiveValidators_without_inactive:
  assumes "registry_ok vm" and "map_of (validators vm) nodeID = Some v"
    and "Status v \<noteq> ValidatorStatusActive"
  shows "GetActiveValidators ctx (vm\<lparr>validators := AList.delete nodeID (validators vm)\<rparr>) =
         GetActiveValidators ctx vm"
proof -
  have "filter (\<lambda>kv. Status (snd kv) = ValidatorStatusActive) (AList.delete nodeID (validators vm))
      = filter (\<lambda>kv. Status (snd kv) = ValidatorStatusActive) (validators vm)"
    using assms by (intro filter_delete_rejected [where v = v]) (simp_all add: registry_ok_def)
  then show ?thesis by (simp add: GetActiveValidators_def)
qed

lemma retiredRegistry_eq:
  "retiredRegistry = \<lparr>validators =
     [(''val1'', (demoValidator ''val1'')\<lparr>StakeAmount := 60000, CreatedAt := 1, UpdatedAt := 3,
          Status := ValidatorStatusInactive\<rparr>),
      (''val2'', (demoValidator ''val2'')\<lparr>CreatedAt := 2, UpdatedAt := 2, Status := ValidatorStatusActive\<rparr>)]\<rparr>"
  by (simp add: retiredRegistry_def DeregisterNode_def RegisterNode_def IsValidatorEligible_def
      MinValidatorStake_def demoValidator_def NewValidatorManager_def Let_def)

lemma retired_facts:
  "registry_ok retiredRegistry"
  "map_of (validators retiredRegistry) ''val1'' =
     Some ((demoValidator ''val1'')\<lparr>StakeAmount := 60000, CreatedAt := 1, UpdatedAt := 3,
          Status := ValidatorStatusInactive\<rparr>)"
  "GetTotalStake ctx retiredRegistry = 30000"
  "CalculateRewards ctx ''val1'' retiredRegistry = 2000"
  by (simp_all add: retiredRegistry_eq registry_ok_def GetTotalStake_def GetActiveValidators_def
      CalculateRewards_def GetValidator_def CalculateValidatorReward_def demoValidator_def
      ValidatorStatusActive_def ValidatorStatusInactive_def)

text \<open>
  A registered validator that is not active is still rewarded, and the total it is
  measured against is that of the active validators only, the same as with its entry
  deleted; so its reward can exceed the block reward of 1000.
\<close>

lemma CalculateRewards_inactive_validator:
  "(registry_ok vm \<and> map_of (validators vm) nodeID = Some v \<and> Status v \<noteq> ValidatorStatusActive
      \<longrightarrow> CalculateRewards ctx nodeID vm =
            (if GetTotalStake ctx vm = 0 then 0
             else (StakeAmount v * 1000) div GetTotalStake ctx vm)
          \<and> GetActiveValidators ctx vm =
              GetActiveValidators ctx (vm\<lparr>validators := AList.delete nodeID (validators vm)\<rparr>)
          \<and> GetTotalStake ctx vm =
              GetTotalStake ctx (vm\<lparr>validators := AList.delete nodeID (validators vm)\<rparr>))
   \<and> (\<exists>vm' nodeID' v'.
         registry_ok vm' \<and> map_of (validators vm') nodeID' = Some v'
         \<and> Status v' \<noteq> ValidatorStatusActive
         \<and> unat (GetTotalStake ctx vm') < unat (StakeAmount v')
         \<and> 1000 < unat (CalculateRewards ctx nodeID' vm'))"
proof (intro conjI impI)
  assume h: "registry_ok vm \<and> map_of (validators vm) nodeID = Some v \<and> Status v \<noteq> ValidatorStatusActive"
  then have ok: "registry_ok vm" and look: "map_of (validators vm) nodeID = Some v"
    and st: "Status v \<noteq> ValidatorStatusActive" by simp_all
  show "CalculateRewards ctx nodeID vm =
            (if GetTotalStake ctx vm = 0 then 0
             else (StakeAmount v * 1000) div GetTotalStake ctx vm)"
    by (simp add: CalculateRewards_found [OF look] CalculateValidatorReward_def)
  show act: "GetActiveValidators ctx vm =
              GetActiveValidators ctx (vm\<lparr>validators := AList.delete nodeID (validators vm)\<rparr>)"
    using GetActiveValidators_without_inactive [OF ok look st] by simp
  show "GetTotalStake ctx vm =
              GetTotalStake ctx (vm\<lparr>validators := AList.delete nodeID (validators vm)\<rparr>)"
    using act by (simp only: GetTotalStake_def)
next
  let ?v = "(demoValidator ''val1'')\<lparr>StakeAmount := 60000, CreatedAt := 1, UpdatedAt := 3,
          Status := ValidatorStatusInactive\<rparr>"
  have "Status ?v \<noteq> ValidatorStatusActive"
    by (simp add: ValidatorStatusActive_def ValidatorStatusInactive_def)
  moreover have "unat (GetTotalStake ctx retiredRegistry) < unat (StakeAmount ?v)"
    by (simp add: retired_facts demoValidator_def)
  moreover have "1000 < unat (CalculateRewards ctx ''val1'' retiredRegistry)"
    by (simp add: retired_facts)
  ultimately show "\<exists>vm' nodeID' v'.
         registry_ok vm' \<and> map_of (validators vm') nodeID' = Some v'
         \<and> Status v' \<noteq> ValidatorStatusActive
         \<and> unat (GetTotalStake ctx vm') < unat (StakeAmount v')
         \<and> 1000 < unat (CalculateRewards ctx nodeID' vm')"
    using retired_facts(1,2) by blast
qed

lemma retiredWhaleRegistry_eq:
  "retiredWhaleRegistry = \<lparr>validators =
     [(''val1'', (demoValidator ''val1'')
         \<lparr>StakeAmount := 18446744073709552, CreatedAt := 1, UpdatedAt := 3,
          Status := ValidatorStatusInactive\<rparr>),
      (''val2'', (demoValidator ''val2'')
         \<lparr>StakeAmount := 10000000000000000, CreatedAt := 2, UpdatedAt := 2,
          Status := ValidatorStatusActive\<rparr>)]\<rparr>"
  by (simp add: retiredWhaleRegistry_def whaleRegistry_eq DeregisterNode_def Let_def)

text \<open>
  C9. The reward of a registered validator that is not active is to be
  \<open>stake(id) * fixedBlockReward / totalActiveStake\<close> as well, with a total that excludes
  its own stake, so that it can exceed the block reward. The code breaks this at the
  following registry: \<open>val1\<close>, staking 18446744073709552, has deregistered and is not
  active; \<open>val2\<close>, staking 10000000000000000, is the only
  active validator, so the total active stake excludes the stake of \<open>val1\<close> and is
  below it. \<open>stake(id) * fixedBlockReward / totalActiveStake\<close> is 1844, above the block
  reward, but the product does not fit in 64 bits and \<open>CalculateRewards\<close> returns 0.
\<close>

theorem CalculateRewards_inactive_wraps_around:
  "registry_ok retiredWhaleRegistry
   \<and> map_of (validators retiredWhaleRegistry) ''val1'' =
       Some ((demoValidator ''val1'')
         \<lparr>StakeAmount := 18446744073709552, CreatedAt := 1, UpdatedAt := 3,
          Status := ValidatorStatusInactive\<rparr>)
   \<and> ValidatorStatusInactive \<noteq> ValidatorStatusActive
   \<and> map ID (GetActiveValidators ctx0 retiredWhaleRegistry) = [''val2'']
   \<and> totalActiveStake ctx0 retiredWhaleRegistry = 10000000000000000
   \<and> calculateReward_spec ctx0 ''val1'' retiredWhaleRegistry = 1844
   \<and> CalculateRewards ctx0 ''val1'' retiredWhaleRegistry = 0"
proof -
  have ok: "registry_ok retiredWhaleRegistry"
    by (simp add: retiredWhaleRegistry_eq registry_ok_def)
  have look: "map_of (validators retiredWhaleRegistry) ''val1'' =
       Some ((demoValidator ''val1'')
         \<lparr>StakeAmount := 18446744073709552, CreatedAt := 1, UpdatedAt := 3,
          Status := ValidatorStatusInactive\<rparr>)"
    by (simp add: retiredWhaleRegistry_eq)
  have ne: "ValidatorStatusInactive \<noteq> ValidatorStatusActive"
    by (simp add: ValidatorStatusActive_def ValidatorStatusInactive_def)
  have act: "map ID (GetActiveValidators ctx0 retiredWhaleRegistry) = [''val2'']"
    by (simp add: retiredWhaleRegistry_eq GetActiveValidators_def demoValidator_def
        ValidatorStatusActive_def ValidatorStatusInactive_def)
  have tot: "totalActiveStake ctx0 retiredWhaleRegistry = 10000000000000000"
    by (simp add: retiredWhaleRegistry_eq totalActiveStake_def GetActiveValidators_def
        demoValidator_def ValidatorStatusActive_def ValidatorStatusInactive_def)
  have wtot: "GetTotalStake ctx0 retiredWhaleRegistry = 10000000000000000"
    by (simp add: retiredWhaleRegistry_eq GetTotalStake_def GetActiveValidators_def
        demoValidator_def ValidatorStatusActive_def ValidatorStatusInactive_def)
  have sp: "calculateReward_spec ctx0 ''val1'' retiredWhaleRegistry = 1844"
    by (simp add: calculateReward_spec_def look tot)
  have code: "CalculateRewards ctx0 ''val1'' retiredWhaleRegistry = 0"
    by (simp add: CalculateRewards_found [OF look] wtot CalculateValidatorReward_def)
  from ok look ne act tot sp code show ?thesis by simp
qed

section \<open>Voting\<close>

lemma upt_0_Suc_map: "[0..<Suc n] = 0 # map Suc [0..<n]"
  by (simp add: upt_conv_Cons map_Suc_upt del: upt_Suc)

lemma preVoteLoop_eq:
  "preVoteLoop clock i block vs votes =
     votes @ map (\<lambda>j. \<lparr>ValidatorID = ID (vs ! j), BlockHash = Hash block,
                          vote_Timestamp = clock (i + j), vote_Type = VoteTypePreVote\<rparr>)
                 [0..<length vs]"
proof (induction vs arbitrary: i votes)
  case Nil
  then show ?case by simp
next
  case (Cons v vs)
  show ?case
    by (simp only: preVoteLoop.simps Cons.IH length_Cons upt_0_Suc_map)
       (simp add: comp_def)
qed

lemma preCommitLoop_eq:
  "preCommitLoop clock i block vs votes =
     votes @ map (\<lambda>j. \<lparr>ValidatorID = ID (vs ! j), BlockHash = Hash block,
                          vote_Timestamp = clock (i + j), vote_Type = VoteTypePreCommit\<rparr>)
                 [0..<length vs]"
proof (induction vs arbitrary: i votes)
  case Nil
  then show ?case by simp
next
  case (Cons v vs)
  show ?case
    by (simp only: preCommitLoop.simps Cons.IH length_Cons upt_0_Suc_map)
       (simp add: comp_def)
qed

text \<open>
  C10. \<open>PreVote\<close> and \<open>PreCommit\<close> return no error, for every engine state, every
  block and every clock. Each appends to the outstanding votes one vote per validator of
  the snapshot, in snapshot order, carrying that validator's ID, the hash of the block
  given and the phase \<open>pre_vote\<close> or \<open>pre_commit\<close>, and changes nothing else; with an
  empty snapshot the engine is returned as it was.
\<close>

theorem PreVote_PreCommit_append_one_vote_each:
  "fst (PreVote clock block ce) = None
   \<and> snd (PreVote clock block ce) =
       ce\<lparr>state := (state ce)\<lparr>Votes := Votes (state ce) @
          map (\<lambda>i. \<lparr>ValidatorID = ID (Validators (state ce) ! i), BlockHash = Hash block,
                     vote_Timestamp = clock i, vote_Type = VoteTypePreVote\<rparr>)
              [0..<length (Validators (state ce))]\<rparr>\<rparr>
   \<and> length (Votes (state (snd (PreVote clock block ce)))) =
       length (Votes (state ce)) + length (Validators (state ce))
   \<and> fst (PreCommit clock block ce) = None
   \<and> snd (PreCommit clock block ce) =
       ce\<lparr>state := (state ce)\<lparr>Votes := Votes (state ce) @
          map (\<lambda>i. \<lparr>ValidatorID = ID (Validators (state ce) ! i), BlockHash = Hash block,
                     vote_Timestamp = clock i, vote_Type = VoteTypePreCommit\<rparr>)
              [0..<length (Validators (state ce))]\<rparr>\<rparr>
   \<and> length (Votes (state (snd (PreCommit clock block ce)))) =
       length (Votes (state ce)) + length (Validators (state ce))
   \<and> (Validators (state ce) = [] \<longrightarrow>
        snd (PreVote clock block ce) = ce \<and> snd (PreCommit clock block ce) = ce)"
  by (simp add: PreVote_def PreCommit_def preVoteLoop_eq preCommitLoop_eq)

theorem PreVote_PreCommit_append_one_vote_each_witness:
  "Validators (state emptyEngine) = []
   \<and> PreVote (\<lambda>i. 5) (demoProposal 1 2) emptyEngine = (None, emptyEngine)
   \<and> PreCommit (\<lambda>i. 5) (demoProposal 1 2) emptyEngine = (None, emptyEngine)
   \<and> Votes (state (snd (PreCommit (\<lambda>i. 5) (demoProposal 1 2) demoEngine))) =
       [\<lparr>ValidatorID = ''val1'', BlockHash = ''block_1'', vote_Timestamp = 5, vote_Type = ''pre_commit''\<rparr>,
        \<lparr>ValidatorID = ''val2'', BlockHash = ''block_1'', vote_Timestamp = 5, vote_Type = ''pre_commit''\<rparr>,
        \<lparr>ValidatorID = ''val3'', BlockHash = ''block_1'', vote_Timestamp = 5, vote_Type = ''pre_commit''\<rparr>]"
proof -
  have e: "Validators (state emptyEngine) = []"
    by (simp add: emptyEngine_def NewInMemoryConsensusEngine_def)
  have up: "[0..<3] = [0, 1, 2]" by (simp add: upt_rec)
  have a: "snd (PreVote (\<lambda>i. 5) (demoProposal 1 2) emptyEngine) = emptyEngine"
    and b: "snd (PreCommit (\<lambda>i. 5) (demoProposal 1 2) emptyEngine) = emptyEngine"
    and c: "fst (PreVote (\<lambda>i. 5) (demoProposal 1 2) emptyEngine) = None"
    and d: "fst (PreCommit (\<lambda>i. 5) (demoProposal 1 2) emptyEngine) = None"
    using PreVote_PreCommit_append_one_vote_each [of "\<lambda>i. 5" "demoProposal 1 2" emptyEngine] e
    by blast+
  have f: "Votes (state (snd (PreCommit (\<lambda>i. 5) (demoProposal 1 2) demoEngine))) =
       [\<lparr>ValidatorID = ''val1'', BlockHash = ''block_1'', vote_Timestamp = 5, vote_Type = ''pre_commit''\<rparr>,
        \<lparr>ValidatorID = ''val2'', BlockHash = ''block_1'', vote_Timestamp = 5, vote_Type = ''pre_commit''\<rparr>,
        \<lparr>ValidatorID = ''val3'', BlockHash = ''block_1'', vote_Timestamp = 5, vote_Type = ''pre_commit''\<rparr>]"
    using PreVote_PreCommit_append_one_vote_each [of "\<lambda>i. 5" "demoProposal 1 2" demoEngine]
    by (simp add: demoEngine_def NewInMemoryConsensusEngine_def demoValidators_def
        demoValidator_def demoProposal_def VoteTypePreCommit_def up)
  from a b c d e f show ?thesis by (simp add: prod_eq_iff)
qed

section \<open>Finalization\<close>

lemma countPreCommits_eq:
  "countPreCommits block votes n = n + int (matchingPreCommits block votes)"
  by (induction votes arbitrary: n)
     (simp_all add: matchingPreCommits_def VoteTypePreCommit_def)

lemma sdiv_nat: "int a sdiv int b = int (a div b)"
  by (cases "a = 0"; cases "b = 0") (simp_all add: signed_divide_int_def zdiv_int)


lemma percentage_eq:
  "int m * 100 sdiv int n = int (m * 100 div n)"
proof -
  have "int m * 100 = int (m * 100)" by simp
  then show ?thesis by (simp only: sdiv_nat)
qed

lemma threshold_reached_iff:
  "(67 \<le> int m * 100 sdiv int n) = (67 \<le> m * 100 div n)"
  by (simp only: percentage_eq) simp

text \<open>
  The helper \<open>IsConsensusReached\<close> of core/types, which \<open>FinalizeBlock\<close> does not
  call, applies the same test in 64-bit unsigned arithmetic.
\<close>

lemma IsConsensusReached_agrees:
  assumes "c * 100 < 2 ^ 64" and "t < 2 ^ 64"
  shows "IsConsensusReached (of_nat c) (of_nat t) \<longleftrightarrow> t \<noteq> 0 \<and> 67 \<le> c * 100 div t"
proof -
  have c: "c < 2 ^ 64" using assms(1) by simp
  have uc: "unat (of_nat c :: uint64) = c" using c by (simp add: unat_of_nat)
  have ut: "unat (of_nat t :: uint64) = t" using assms(2) by (simp add: unat_of_nat)
  have um: "unat (of_nat c * 100 :: uint64) = c * 100"
    using assms(1) uc by (simp add: unat_word_ariths)
  have z: "(of_nat t :: uint64) = 0 \<longleftrightarrow> t = 0"
    using ut by (metis unat_0 unat_eq_zero)
  show ?thesis
    by (simp add: IsConsensusReached_def z ConsensusThreshold_def word_le_nat_alt unat_div um ut)
qed

lemma FinalizeBlock_cases:
  "FinalizeBlock now ptr block ce =
     (if Validators (state ce) = [] then (Some NoValidators, block, ce)
      else if 67 \<le> matchingPreCommits block (Votes (state ce)) * 100 div length (Validators (state ce))
      then (None,
            block\<lparr>Consensus := (Consensus block)\<lparr>Finalized := True, FinalityTime := now\<rparr>\<rparr>,
            ce\<lparr>state := (state ce)
               \<lparr>FinalizedBlocks := FinalizedBlocks (state ce) @ [ptr],
                CurrentHeight := CurrentHeight (state ce) + 1,
                ProposerIndex := (ProposerIndex (state ce) + 1) smod int (length (Validators (state ce))),
                Votes := []\<rparr>\<rparr>)
      else (Some (QuorumNotReached (int (matchingPreCommits block (Votes (state ce))))
                    (int (length (Validators (state ce))))), block, ce))"
  by (simp add: FinalizeBlock_def Let_def threshold_reached_iff ConsensusThreshold_def countPreCommits_eq)

text \<open>
  C1. \<open>FinalizeBlock\<close> returns no error exactly when the snapshot is not empty and
  \<open>count * 100 div total\<close> is at least 67, where \<open>count\<close> is the number of outstanding
  pre-commit votes for the hash of the block and \<open>total\<close> the number of validators. An
  empty snapshot gives \<open>NoValidators\<close>, a smaller percentage \<open>QuorumNotReached\<close>. With 3
  validators, 2 matching pre-commits (66 after truncation) fail with
  \<open>QuorumNotReached\<close> and 3 (100) succeed.
\<close>

theorem FinalizeBlock_succeeds_iff_quorum:
  "(fst (FinalizeBlock now ptr b ce) = None \<longleftrightarrow>
      Validators (state ce) \<noteq> [] \<and>
      67 \<le> matchingPreCommits b (Votes (state ce)) * 100 div length (Validators (state ce)))
   \<and> (Validators (state ce) = [] \<longrightarrow> fst (FinalizeBlock now ptr b ce) = Some NoValidators)
   \<and> (Validators (state ce) \<noteq> [] \<and>
        matchingPreCommits b (Votes (state ce)) * 100 div length (Validators (state ce)) < 67 \<longrightarrow>
        fst (FinalizeBlock now ptr b ce) =
          Some (QuorumNotReached (int (matchingPreCommits b (Votes (state ce))))
                  (int (length (Validators (state ce))))))
   \<and> (length (Validators (state ce)) = 3 \<and> matchingPreCommits b (Votes (state ce)) = 2 \<longrightarrow>
        2 * 100 div 3 = (66::nat) \<and> fst (FinalizeBlock now ptr b ce) = Some (QuorumNotReached 2 3))
   \<and> (length (Validators (state ce)) = 3 \<and> matchingPreCommits b (Votes (state ce)) = 3 \<longrightarrow>
        3 * 100 div 3 = (100::nat) \<and> fst (FinalizeBlock now ptr b ce) = None)"
  by (auto simp add: FinalizeBlock_cases)

text \<open>
  C7. When \<open>FinalizeBlock\<close> fails with \<open>QuorumNotReached\<close>, it returns the block and
  the engine as they were: the outstanding votes are not cleared, the height, the
  proposer index and the history of finalized blocks keep their values, and the
  finalized flag of the block keeps its value, so a flag that was false remains false.
\<close>

theorem FinalizeBlock_failure_changes_nothing:
  "fst (FinalizeBlock now ptr b ce) = Some (QuorumNotReached p t) \<longrightarrow>
     snd (FinalizeBlock now ptr b ce) = (b, ce)
     \<and> Votes (state (snd (snd (FinalizeBlock now ptr b ce)))) = Votes (state ce)
     \<and> CurrentHeight (state (snd (snd (FinalizeBlock now ptr b ce)))) = CurrentHeight (state ce)
     \<and> ProposerIndex (state (snd (snd (FinalizeBlock now ptr b ce)))) = ProposerIndex (state ce)
     \<and> FinalizedBlocks (state (snd (snd (FinalizeBlock now ptr b ce)))) = FinalizedBlocks (state ce)
     \<and> Finalized (Consensus (fst (snd (FinalizeBlock now ptr b ce)))) = Finalized (Consensus b)
     \<and> (\<not> Finalized (Consensus b) \<longrightarrow>
          \<not> Finalized (Consensus (fst (snd (FinalizeBlock now ptr b ce)))))"
  by (simp add: FinalizeBlock_cases split: if_splits)

section \<open>Height and proposer across calls\<close>













section \<open>Block hashes\<close>








section \<open>The demo round\<close>

lemma decimal_1: "decimal (Suc 0) = ''1''"
  by (simp add: decimal.simps digit_char_def)

lemma demo_ProposeBlock: "ProposeBlock now1 now2 demoEngine = (Inr (demoProposal now1 now2), demoEngine)"
  by (simp add: ProposeBlock_def demoEngine_def NewInMemoryConsensusEngine_def demoValidators_def
      demoValidator_def demoProposal_def Let_def decimal_1)

lemma demo_after_voting:
  "state (run demoVoting demoEngine) =
     \<lparr>CurrentHeight = 1, CurrentRound = 0, Validators = demoValidators, ProposerIndex = 0,
      Votes = [\<lparr>ValidatorID = ''val1'', BlockHash = ''block_1'', vote_Timestamp = 12, vote_Type = ''pre_vote''\<rparr>,
               \<lparr>ValidatorID = ''val2'', BlockHash = ''block_1'', vote_Timestamp = 12, vote_Type = ''pre_vote''\<rparr>,
               \<lparr>ValidatorID = ''val3'', BlockHash = ''block_1'', vote_Timestamp = 12, vote_Type = ''pre_vote''\<rparr>,
               demoPreCommit ''val1'', demoPreCommit ''val2'', demoPreCommit ''val3''],
      FinalizedBlocks = []\<rparr>"
  by (simp add: demoVoting_def demo_ProposeBlock PreVote_def PreCommit_def)
     (simp add: demoEngine_def NewInMemoryConsensusEngine_def demoValidators_def demoValidator_def
        demoProposal_def demoPreCommit_def VoteTypePreVote_def VoteTypePreCommit_def)

lemma demo_matching: "matchingPreCommits (demoProposal now1 now2) (Votes (state (run demoVoting demoEngine))) = 3"
  by (simp add: demo_after_voting matchingPreCommits_def demoPreCommit_def demoProposal_def)

lemma demo_validators: "length (Validators (state (run demoVoting demoEngine))) = 3"
  by (simp add: demo_after_voting demoValidators_def)

lemma partial_matching: "matchingPreCommits (demoProposal now1 now2) (Votes (state partialVotesEngine)) = 2"
  by (simp add: partialVotesEngine_def matchingPreCommits_def demoPreCommit_def demoProposal_def)

lemma partial_validators: "length (Validators (state partialVotesEngine)) = 3"
  by (simp add: partialVotesEngine_def demoEngine_def NewInMemoryConsensusEngine_def demoValidators_def)

lemma demo_nonempty: "Validators (state (run demoVoting demoEngine)) \<noteq> []"
  using demo_validators by auto

lemma partial_nonempty: "Validators (state partialVotesEngine) \<noteq> []"
  using partial_validators by auto

theorem FinalizeBlock_succeeds_iff_quorum_witness:
  "length (Validators (state partialVotesEngine)) = 3
   \<and> matchingPreCommits (demoProposal 10 11) (Votes (state partialVotesEngine)) = 2
   \<and> fst (FinalizeBlock 14 101 (demoProposal 10 11) partialVotesEngine) = Some (QuorumNotReached 2 3)
   \<and> length (Validators (state (run demoVoting demoEngine))) = 3
   \<and> matchingPreCommits (demoProposal 10 11) (Votes (state (run demoVoting demoEngine))) = 3
   \<and> fst (FinalizeBlock 14 101 (demoProposal 10 11) (run demoVoting demoEngine)) = None
   \<and> Validators (state emptyEngine) = []
   \<and> fst (FinalizeBlock 14 101 (demoProposal 10 11) emptyEngine) = Some NoValidators"
proof -
  have e: "Validators (state emptyEngine) = []"
    by (simp add: emptyEngine_def NewInMemoryConsensusEngine_def)
  have a: "fst (FinalizeBlock 14 101 (demoProposal 10 11) partialVotesEngine) = Some (QuorumNotReached 2 3)"
    using FinalizeBlock_succeeds_iff_quorum [of 14 101 "demoProposal 10 11" partialVotesEngine]
      partial_matching [of 10 11] partial_validators by blast
  have b: "fst (FinalizeBlock 14 101 (demoProposal 10 11) (run demoVoting demoEngine)) = None"
    using FinalizeBlock_succeeds_iff_quorum [of 14 101 "demoProposal 10 11" "run demoVoting demoEngine"]
      demo_matching [of 10 11] demo_validators by blast
  have c: "fst (FinalizeBlock 14 101 (demoProposal 10 11) emptyEngine) = Some NoValidators"
    using FinalizeBlock_succeeds_iff_quorum [of 14 101 "demoProposal 10 11" emptyEngine] e by blast
  from a b c e partial_matching [of 10 11] partial_validators demo_matching [of 10 11] demo_validators
  show ?thesis by blast
qed

theorem FinalizeBlock_failure_changes_nothing_witness:
  "fst (FinalizeBlock 14 101 (demoProposal 10 11) partialVotesEngine) = Some (QuorumNotReached 2 3)
   \<and> snd (FinalizeBlock 14 101 (demoProposal 10 11) partialVotesEngine) =
       (demoProposal 10 11, partialVotesEngine)
   \<and> \<not> Finalized (Consensus (fst (snd (FinalizeBlock 14 101 (demoProposal 10 11) partialVotesEngine))))"
proof -
  have a: "fst (FinalizeBlock 14 101 (demoProposal 10 11) partialVotesEngine) = Some (QuorumNotReached 2 3)"
    by (simp add: FinalizeBlock_cases partial_matching partial_validators partial_nonempty)
  have f: "\<not> Finalized (Consensus (demoProposal 10 11))"
    by (simp add: demoProposal_def)
  from FinalizeBlock_failure_changes_nothing [of 14 101 "demoProposal 10 11" partialVotesEngine 2 3] a
  have "snd (FinalizeBlock 14 101 (demoProposal 10 11) partialVotesEngine) =
       (demoProposal 10 11, partialVotesEngine)"
    and "Finalized (Consensus (fst (snd (FinalizeBlock 14 101 (demoProposal 10 11) partialVotesEngine))))
       = Finalized (Consensus (demoProposal 10 11))"
    by blast+
  with a f show ?thesis by simp
qed


text \<open>
  One address finalized twice: the history holds the address twice and both entries show
  the block with the second finality time, as the source's slice of pointers does.
\<close>

lemma run_append: "run (cs @ ds) ce = run ds (run cs ce)"
  by (induction cs arbitrary: ce) simp_all

lemma first_finalization:
  "FinalizeBlock 14 101 (demoProposal 10 11) (run demoVoting demoEngine) =
     (None, finalizedAt 14,
      (run demoVoting demoEngine)\<lparr>state :=
         \<lparr>CurrentHeight = 2, CurrentRound = 0, Validators = demoValidators, ProposerIndex = 1,
          Votes = [], FinalizedBlocks = [101]\<rparr>\<rparr>)"
  by (simp add: FinalizeBlock_cases demo_matching demo_validators demo_nonempty)
     (simp add: demo_after_voting finalizedAt_def demoProposal_def signed_modulo_int_def)

lemma second_finalization:
  "FinalizeBlock 17 101 (finalizedAt 14)
     (snd (PreCommit (\<lambda>i. 16) (finalizedAt 14)
        ((run demoVoting demoEngine)\<lparr>state :=
           \<lparr>CurrentHeight = 2, CurrentRound = 0, Validators = demoValidators, ProposerIndex = 1,
            Votes = [], FinalizedBlocks = [101]\<rparr>\<rparr>))) =
     (None, finalizedAt 17,
      (run demoVoting demoEngine)\<lparr>state :=
         \<lparr>CurrentHeight = 3, CurrentRound = 0, Validators = demoValidators, ProposerIndex = 2,
          Votes = [], FinalizedBlocks = [101, 101]\<rparr>\<rparr>)"
  by (simp add: FinalizeBlock_cases PreCommit_def matchingPreCommits_def demoValidators_def
        VoteTypePreCommit_def signed_modulo_int_def)
     (simp add: finalizedAt_def demoProposal_def)

lemma refinalized_block_is_shared:
  "FinalizedBlocks (state (run (demoVoting @ demoRefinalize) demoEngine)) = [101, 101]
   \<and> fst (snd (FinalizeBlock 17 101 (finalizedAt 14)
        (run (demoVoting @ [CallFinalizeBlock 14 101 (demoProposal 10 11),
                            CallPreCommit (\<lambda>i. 16) (finalizedAt 14)]) demoEngine))) = finalizedAt 17
   \<and> historyBlocks (heap(101 := finalizedAt 17)) (run (demoVoting @ demoRefinalize) demoEngine) =
       [finalizedAt 17, finalizedAt 17]"
  by (simp add: run_append demoRefinalize_def first_finalization second_finalization historyBlocks_def)



end
